theory Spec2Isabelle
  imports Complex_Main
begin

section \<open>Vigilance-AI: landmark ratios, signal trackers, fusion and alerting\<close>

text \<open>
  A shallow embedding of the signal-analysis core of the drowsiness monitor:
  \<^item> \<^verbatim>\<open>src/detection/eye_tracker.py\<close> (class \<^verbatim>\<open>EyeTracker\<close>),
  \<^item> \<^verbatim>\<open>src/detection/yawn_detector.py\<close> (class \<^verbatim>\<open>YawnDetector\<close>),
  \<^item> \<^verbatim>\<open>src/detection/head_pose.py\<close> (class \<^verbatim>\<open>HeadPoseEstimator\<close>),
  \<^item> \<^verbatim>\<open>src/core/alert_system.py\<close> (class \<^verbatim>\<open>AlertSystem\<close>),
  \<^item> \<^verbatim>\<open>src/core/drowsiness_detector.py\<close> (class \<^verbatim>\<open>DrowsinessDetector\<close>).

  Conventions of the embedding.
  \<^item> Python floats are modelled as \<^typ>\<open>real\<close>: rounding, infinities and NaN are left out.
  \<^item> Counters that start at 0 and are only incremented or reset to 0
    (\<^verbatim>\<open>closed_frame_count\<close>, \<^verbatim>\<open>blink_count\<close>, \<^verbatim>\<open>frame_number\<close>, ...) are \<^typ>\<open>nat\<close>;
    thresholds handed to a constructor are \<^typ>\<open>int\<close>, since nothing in the code constrains them.
  \<^item> Every method takes the object's state and returns the new state; a method that can
    raise returns \<open>py_error + _\<close>, with \<open>Inl\<close> for the exception. A call that raises
    reports the exception only: the partly updated object it leaves behind is not modelled.
  \<^item> Reads of the wall clock and the results of the external collaborators (landmark
    detector, perspective solver) are inputs of the call that uses them.
\<close>

subsection \<open>Exceptions, indexing, division\<close>

datatype py_error = IndexError | ZeroDivisionError

definition bind_res :: "py_error + 'a \<Rightarrow> ('a \<Rightarrow> py_error + 'b) \<Rightarrow> py_error + 'b" where
  "bind_res r f = (case r of Inl e \<Rightarrow> Inl e | Inr a \<Rightarrow> f a)"

text \<open>\<^verbatim>\<open>arr[i]\<close> for a constant index \<open>i \<ge> 0\<close>: a row of the array, or IndexError.\<close>

definition getitem :: "'a list \<Rightarrow> nat \<Rightarrow> py_error + 'a" where
  "getitem arr i = (if i < length arr then Inr (arr ! i) else Inl IndexError)"

text \<open>\<^verbatim>\<open>arr[indices]\<close> with a list of indices (numpy integer-array indexing): the rows
  in the order of the indices, IndexError when one of them is out of range.\<close>

fun take_rows :: "'a list \<Rightarrow> nat list \<Rightarrow> py_error + 'a list" where
  "take_rows arr [] = Inr []"
| "take_rows arr (i # is) =
     bind_res (getitem arr i) (\<lambda>x. bind_res (take_rows arr is) (\<lambda>xs. Inr (x # xs)))"

text \<open>\<^verbatim>\<open>a / b\<close>: true division. Python's own numbers raise on a zero divisor; the model
  takes this strictest reading for every division.\<close>

definition truediv :: "real \<Rightarrow> real \<Rightarrow> py_error + real" where
  "truediv a b = (if b = 0 then Inl ZeroDivisionError else Inr (a / b))"

text \<open>\<^verbatim>\<open>collections.deque(maxlen=n).append(x)\<close>: the item is appended on the right and,
  when the deque is then longer than \<open>n\<close>, the leftmost item is dropped.\<close>

definition deque_append :: "nat \<Rightarrow> 'a list \<Rightarrow> 'a \<Rightarrow> 'a list" where
  "deque_append maxlen d x = (let d' = d @ [x] in if maxlen < length d' then tl d' else d')"

subsection \<open>Ratio geometry\<close>

type_synonym point = "real \<times> real"

text \<open>\<^verbatim>\<open>scipy.spatial.distance.euclidean\<close> on two rows of an \<open>(n, 2)\<close> array.\<close>

definition euclidean :: "point \<Rightarrow> point \<Rightarrow> real" where
  "euclidean u v = sqrt ((fst u - fst v)\<^sup>2 + (snd u - snd v)\<^sup>2)"

text \<open>\<^verbatim>\<open>EyeTracker.calculate_ear\<close> (static).\<close>

definition calculate_ear :: "point list \<Rightarrow> py_error + real" where
  "calculate_ear eye_landmarks =
     bind_res (getitem eye_landmarks 1) (\<lambda>p1.
     bind_res (getitem eye_landmarks 5) (\<lambda>p5.
     bind_res (getitem eye_landmarks 2) (\<lambda>p2.
     bind_res (getitem eye_landmarks 4) (\<lambda>p4.
     bind_res (getitem eye_landmarks 0) (\<lambda>p0.
     bind_res (getitem eye_landmarks 3) (\<lambda>p3.
       let A = euclidean p1 p5;
           B = euclidean p2 p4;
           C = euclidean p0 p3
       in if C = 0 then Inr 0 else truediv (A + B) (2 * C)))))))"

text \<open>\<^verbatim>\<open>YawnDetector.calculate_mar\<close> (static): the inner-mouth formula on 20 or more
  points, the outer-mouth fallback otherwise.\<close>

definition calculate_mar :: "point list \<Rightarrow> py_error + real" where
  "calculate_mar mouth_landmarks =
     bind_res
       (if 20 \<le> length mouth_landmarks then
          (let inner_start = 12 in
           bind_res (getitem mouth_landmarks (inner_start + 2)) (\<lambda>top_inner.
           bind_res (getitem mouth_landmarks (inner_start + 6)) (\<lambda>bottom_inner.
           bind_res (getitem mouth_landmarks (inner_start + 3)) (\<lambda>top_inner2.
           bind_res (getitem mouth_landmarks (inner_start + 5)) (\<lambda>bottom_inner2.
           bind_res (getitem mouth_landmarks inner_start) (\<lambda>left_corner.
           bind_res (getitem mouth_landmarks (inner_start + 4)) (\<lambda>right_corner.
             Inr (euclidean top_inner bottom_inner,
                  euclidean top_inner2 bottom_inner2,
                  euclidean left_corner right_corner))))))))
        else
           bind_res (getitem mouth_landmarks 2) (\<lambda>q2.
           bind_res (getitem mouth_landmarks 10) (\<lambda>q10.
           bind_res (getitem mouth_landmarks 4) (\<lambda>q4.
           bind_res (getitem mouth_landmarks 8) (\<lambda>q8.
           bind_res (getitem mouth_landmarks 0) (\<lambda>q0.
           bind_res (getitem mouth_landmarks 6) (\<lambda>q6.
             Inr (euclidean q2 q10, euclidean q4 q8, euclidean q0 q6))))))))
       (\<lambda>(A, B, C). if C = 0 then Inr 0 else truediv (A + B) (2 * C))"

subsection \<open>Eye tracker\<close>

record eye_tracker =
  ear_threshold :: real
  history_size :: nat
  drowsy_frames_threshold :: int
  ear_history :: "real list"
  closed_frame_count :: nat
  blink_count :: nat
  is_blinking :: bool

record eye_metrics =
  left_ear :: real
  right_ear :: real
  avg_ear :: real
  is_closed :: bool
  closure_duration_frames :: nat

text \<open>\<^verbatim>\<open>EyeTracker.__init__\<close>.\<close>

definition EyeTracker :: "real \<Rightarrow> nat \<Rightarrow> int \<Rightarrow> eye_tracker" where
  "EyeTracker ear_thr hist_size drowsy_thr =
     \<lparr>ear_threshold = ear_thr, history_size = hist_size, drowsy_frames_threshold = drowsy_thr,
      ear_history = [], closed_frame_count = 0, blink_count = 0, is_blinking = False\<rparr>"

text \<open>\<^verbatim>\<open>EyeTracker.process_eyes\<close>.\<close>

definition process_eyes ::
  "point list \<Rightarrow> point list \<Rightarrow> eye_tracker \<Rightarrow> py_error + (eye_metrics \<times> eye_tracker)" where
  "process_eyes left_eye right_eye self =
     bind_res (calculate_ear left_eye) (\<lambda>l_ear.
     bind_res (calculate_ear right_eye) (\<lambda>r_ear.
       let a_ear = (l_ear + r_ear) / 2;
           s1 = self\<lparr>ear_history := deque_append (history_size self) (ear_history self) a_ear\<rparr>;
           closed = (a_ear < ear_threshold s1);
           s2 = (if closed then s1\<lparr>closed_frame_count := closed_frame_count s1 + 1\<rparr>
                 else
                   (let s1' =
                      (if is_blinking s1 \<and> 0 < closed_frame_count s1 then
                         (if int (closed_frame_count s1) < drowsy_frames_threshold s1
                          then s1\<lparr>blink_count := blink_count s1 + 1\<rparr> else s1)
                       else s1)
                    in s1'\<lparr>closed_frame_count := 0\<rparr>));
           s3 = s2\<lparr>is_blinking := closed\<rparr>
       in Inr (\<lparr>left_ear = l_ear, right_ear = r_ear, avg_ear = a_ear, is_closed = closed,
                 closure_duration_frames = closed_frame_count s3\<rparr>, s3)))"

text \<open>\<^verbatim>\<open>EyeTracker.is_drowsy\<close>.\<close>

definition is_drowsy :: "eye_tracker \<Rightarrow> bool" where
  "is_drowsy self = (drowsy_frames_threshold self \<le> int (closed_frame_count self))"

text \<open>\<^verbatim>\<open>EyeTracker.get_drowsiness_score\<close>. Both operands of each division are Python
  integers, so a zero divisor raises.\<close>

definition get_drowsiness_score :: "eye_tracker \<Rightarrow> py_error + real" where
  "get_drowsiness_score self =
     (if ear_history self = [] then Inr 0
      else
        (let threshold_crossings =
               (\<Sum>ear \<leftarrow> filter (\<lambda>ear. ear < ear_threshold self) (ear_history self). (1::nat))
         in bind_res (truediv (real (closed_frame_count self))
                              (real_of_int (drowsy_frames_threshold self))) (\<lambda>q.
            let closure_factor = min q 1 in
            bind_res (truediv (real threshold_crossings) (real (length (ear_history self)))) (\<lambda>fr.
            let history_score = fr * 50;
                closure_score = closure_factor * 50
            in Inr (min (history_score + closure_score) 100)))))"

text \<open>\<^verbatim>\<open>EyeTracker.reset\<close>.\<close>

definition reset_eye :: "eye_tracker \<Rightarrow> eye_tracker" where
  "reset_eye self =
     self\<lparr>ear_history := [], closed_frame_count := 0, blink_count := 0, is_blinking := False\<rparr>"

subsection \<open>Yawn detector\<close>

record yawn_detector =
  mar_threshold :: real
  min_yawn_frames :: int
  history_size_yd :: nat
  consecutive_yawns_alert :: int
  mar_history :: "real list"
  yawn_frame_count :: nat
  total_yawns :: nat
  is_yawning :: bool
  recent_yawns :: "nat list"
  frame_number :: nat

record yawn_metrics =
  mar :: real
  is_yawning_ym :: bool
  yawn_duration_frames :: nat
  total_yawns_ym :: nat

text \<open>\<^verbatim>\<open>YawnDetector.__init__\<close>.\<close>

definition YawnDetector :: "real \<Rightarrow> int \<Rightarrow> nat \<Rightarrow> int \<Rightarrow> yawn_detector" where
  "YawnDetector mar_thr min_frames hist_size yawns_alert =
     \<lparr>mar_threshold = mar_thr, min_yawn_frames = min_frames, history_size_yd = hist_size,
      consecutive_yawns_alert = yawns_alert, mar_history = [], yawn_frame_count = 0,
      total_yawns = 0, is_yawning = False, recent_yawns = [], frame_number = 0\<rparr>"

text \<open>\<^verbatim>\<open>YawnDetector.process_mouth\<close>. The window of recent yawns is a deque of capacity 100.\<close>

definition process_mouth ::
  "point list \<Rightarrow> yawn_detector \<Rightarrow> py_error + (yawn_metrics \<times> yawn_detector)" where
  "process_mouth mouth_landmarks self =
     (let s0 = self\<lparr>frame_number := frame_number self + 1\<rparr> in
      bind_res (calculate_mar mouth_landmarks) (\<lambda>m.
        let s1 = s0\<lparr>mar_history := deque_append (history_size_yd s0) (mar_history s0) m\<rparr>;
            currently_open = (mar_threshold s1 < m);
            s2 = (if currently_open then s1\<lparr>yawn_frame_count := yawn_frame_count s1 + 1\<rparr>
                  else
                    (let s1' =
                       (if is_yawning s1 \<and> min_yawn_frames s1 \<le> int (yawn_frame_count s1) then
                          s1\<lparr>total_yawns := total_yawns s1 + 1,
                             recent_yawns := deque_append 100 (recent_yawns s1) (frame_number s1)\<rparr>
                        else s1)
                     in s1'\<lparr>yawn_frame_count := 0\<rparr>));
            s3 = s2\<lparr>is_yawning :=
                       (currently_open \<and> min_yawn_frames s2 \<le> int (yawn_frame_count s2))\<rparr>
        in Inr (\<lparr>mar = m, is_yawning_ym = is_yawning s3,
                  yawn_duration_frames = yawn_frame_count s3,
                  total_yawns_ym = total_yawns s3\<rparr>, s3)))"

text \<open>\<^verbatim>\<open>YawnDetector.is_fatigue_indicated\<close>. The difference of two Python integers may be
  negative, so it is taken in \<^typ>\<open>int\<close>.\<close>

definition is_fatigue_indicated :: "yawn_detector \<Rightarrow> bool" where
  "is_fatigue_indicated self =
     (let recent_window = 90;
          recent_count =
            (\<Sum>frame \<leftarrow> filter (\<lambda>frame. int (frame_number self) - int frame < recent_window)
                                (recent_yawns self). (1::int))
      in consecutive_yawns_alert self \<le> recent_count)"

text \<open>\<^verbatim>\<open>YawnDetector.reset\<close>.\<close>

definition reset_yawn :: "yawn_detector \<Rightarrow> yawn_detector" where
  "reset_yawn self =
     self\<lparr>mar_history := [], yawn_frame_count := 0, total_yawns := 0, is_yawning := False,
          recent_yawns := [], frame_number := 0\<rparr>"

subsection \<open>Head pose estimator\<close>

type_synonym matrix = "nat \<Rightarrow> nat \<Rightarrow> real"

record head_pose_estimator =
  pitch_threshold :: real
  roll_threshold :: real
  frame_width :: int
  frame_height :: int
  camera_matrix :: "real list list"

record head_pose_metrics =
  pitch :: real
  yaw :: real
  roll :: real
  is_head_down :: bool
  is_head_tilted :: bool
  rotation_vector :: "real list option"
  translation_vector :: "real list option"

text \<open>What \<^verbatim>\<open>cv2.solvePnP\<close> followed by \<^verbatim>\<open>cv2.Rodrigues\<close> hands back on success: the
  rotation matrix, the rotation vector and the translation vector. Both are external
  numeric collaborators; their result is an input of \<open>estimate_pose\<close>.\<close>

record pnp_solution =
  rotation_matrix :: matrix
  rvec :: "real list"
  tvec :: "real list"

text \<open>\<^verbatim>\<open>np.arctan2(y, x)\<close>: the angle of the point \<open>(x, y)\<close> in \<open>(-\<pi>, \<pi>]\<close>, 0 at the origin.\<close>

definition arctan2 :: "real \<Rightarrow> real \<Rightarrow> real" where
  "arctan2 y x = Arg (Complex x y)"

definition degrees :: "real \<Rightarrow> real" where
  "degrees r = r * 180 / pi"

text \<open>\<^verbatim>\<open>HeadPoseEstimator._update_camera_matrix\<close>.\<close>

definition update_camera_matrix :: "head_pose_estimator \<Rightarrow> head_pose_estimator" where
  "update_camera_matrix self =
     (let focal_length = real_of_int (frame_width self);
          center = (real_of_int (frame_width self) / 2, real_of_int (frame_height self) / 2)
      in self\<lparr>camera_matrix :=
                 [[focal_length, 0, fst center], [0, focal_length, snd center], [0, 0, 1]]\<rparr>)"

text \<open>\<^verbatim>\<open>HeadPoseEstimator.__init__\<close>.\<close>

definition HeadPoseEstimator :: "real \<Rightarrow> real \<Rightarrow> int \<Rightarrow> int \<Rightarrow> head_pose_estimator" where
  "HeadPoseEstimator pitch_thr roll_thr width height =
     update_camera_matrix
       \<lparr>pitch_threshold = pitch_thr, roll_threshold = roll_thr, frame_width = width,
        frame_height = height, camera_matrix = []\<rparr>"

text \<open>\<^verbatim>\<open>HeadPoseEstimator.set_frame_size\<close>.\<close>

definition set_frame_size :: "int \<Rightarrow> int \<Rightarrow> head_pose_estimator \<Rightarrow> head_pose_estimator" where
  "set_frame_size width height self =
     (if width \<noteq> frame_width self \<or> height \<noteq> frame_height self
      then update_camera_matrix (self\<lparr>frame_width := width, frame_height := height\<rparr>)
      else self)"

text \<open>\<^verbatim>\<open>HeadPoseEstimator._extract_pose_points\<close>: nose tip, chin, eye corners, mouth corners.\<close>

definition extract_pose_points :: "point list \<Rightarrow> py_error + point list" where
  "extract_pose_points landmarks = take_rows landmarks [30, 8, 36, 45, 48, 54]"

text \<open>\<^verbatim>\<open>HeadPoseEstimator._rotation_matrix_to_euler\<close> (static): pitch, yaw, roll in radians.\<close>

definition rotation_matrix_to_euler :: "matrix \<Rightarrow> real \<times> real \<times> real" where
  "rotation_matrix_to_euler R =
     (let sy = sqrt ((R 0 0)\<^sup>2 + (R 1 0)\<^sup>2);
          singular = (sy < 1 / 10 ^ 6);
          x = (if \<not> singular then arctan2 (R 2 1) (R 2 2) else arctan2 (- R 1 2) (R 1 1));
          y = arctan2 (- R 2 0) sy;
          z = (if \<not> singular then arctan2 (R 1 0) (R 0 0) else 0)
      in (y, z, x))"

text \<open>\<^verbatim>\<open>HeadPoseEstimator.estimate_pose\<close>, always called with a frame shape
  \<open>(height, width)\<close> by the orchestrator. \<open>solved\<close> is the outcome of the external solve on
  the extracted points and the camera matrix: \<open>None\<close> when it reports failure.\<close>

definition estimate_pose ::
  "point list \<Rightarrow> int \<times> int \<Rightarrow> pnp_solution option \<Rightarrow> head_pose_estimator
     \<Rightarrow> py_error + (head_pose_metrics \<times> head_pose_estimator)" where
  "estimate_pose landmarks frame_shape solved self =
     (let s1 = set_frame_size (snd frame_shape) (fst frame_shape) self in
      bind_res (extract_pose_points landmarks) (\<lambda>image_points.
        case solved of
          None \<Rightarrow>
            Inr (\<lparr>pitch = 0, yaw = 0, roll = 0, is_head_down = False, is_head_tilted = False,
                  rotation_vector = None, translation_vector = None\<rparr>, s1)
        | Some sol \<Rightarrow>
            (let (p, y, r) = rotation_matrix_to_euler (rotation_matrix sol);
                 pitch_deg = degrees p;
                 yaw_deg = degrees y;
                 roll_deg = degrees r
             in Inr (\<lparr>pitch = pitch_deg, yaw = yaw_deg, roll = roll_deg,
                       is_head_down = (pitch_deg < - pitch_threshold s1),
                       is_head_tilted = (roll_threshold s1 < \<bar>roll_deg\<bar>),
                       rotation_vector = Some (rvec sol),
                       translation_vector = Some (tvec sol)\<rparr>, s1))))"

subsection \<open>Alert system\<close>

text \<open>The playback thread is represented by what the calling thread does to it: the
  \<^verbatim>\<open>_stop_event\<close> flag, whether \<^verbatim>\<open>_alert_thread\<close> holds a thread object, and the
  number of \<^verbatim>\<open>Thread.start()\<close> calls made so far. What the playback thread itself does
  concurrently (its loop, and clearing \<^verbatim>\<open>is_alerting\<close> when it exits) is outside
  this sequential model.\<close>

record alert_system =
  sound_enabled :: bool
  visual_enabled :: bool
  cooldown_seconds :: real
  is_alerting :: bool
  last_alert_time :: real
  alert_count :: nat
  stop_event :: bool
  alert_thread :: bool
  threads_started :: nat

text \<open>\<^verbatim>\<open>AlertSystem.__init__\<close>; \<open>audio_init_failed\<close> tells whether the audio backend was
  present and its initialisation raised, which switches sound off.\<close>

definition AlertSystem :: "bool \<Rightarrow> bool \<Rightarrow> real \<Rightarrow> bool \<Rightarrow> alert_system" where
  "AlertSystem sound visual cooldown audio_init_failed =
     \<lparr>sound_enabled = (sound \<and> \<not> audio_init_failed), visual_enabled = visual,
      cooldown_seconds = cooldown, is_alerting = False, last_alert_time = 0, alert_count = 0,
      stop_event = False, alert_thread = False, threads_started = 0\<rparr>"

text \<open>\<^verbatim>\<open>AlertSystem.trigger_alert\<close>; \<open>current_time\<close> is the value read from \<^verbatim>\<open>time.time()\<close>.\<close>

definition trigger_alert :: "real \<Rightarrow> string \<Rightarrow> alert_system \<Rightarrow> bool \<times> alert_system" where
  "trigger_alert current_time alert_type self =
     (if current_time - last_alert_time self < cooldown_seconds self then (False, self)
      else if is_alerting self then (False, self)
      else
        (let s1 = self\<lparr>is_alerting := True, last_alert_time := current_time,
                       alert_count := alert_count self + 1\<rparr>;
             s2 = (if sound_enabled s1
                   then s1\<lparr>stop_event := False, alert_thread := True,
                           threads_started := threads_started s1 + 1\<rparr>
                   else s1)
         in (True, s2)))"

text \<open>\<^verbatim>\<open>AlertSystem.stop_alert\<close>: sets the stop flag, waits (bounded) for the thread, and
  leaves the alerting state.\<close>

definition stop_alert :: "alert_system \<Rightarrow> alert_system" where
  "stop_alert self =
     (if \<not> is_alerting self then self
      else self\<lparr>stop_event := True, is_alerting := False\<rparr>)"

text \<open>\<^verbatim>\<open>AlertSystem.reset\<close>.\<close>

definition reset_alert :: "alert_system \<Rightarrow> alert_system" where
  "reset_alert self = (stop_alert self)\<lparr>alert_count := 0, last_alert_time := 0\<rparr>"

subsection \<open>Orchestrator\<close>

text \<open>\<^verbatim>\<open>FaceDetector.get_eye_landmarks\<close>: rows 42..47 (left eye) and 36..41 (right eye).\<close>

definition get_eye_landmarks :: "point list \<Rightarrow> py_error + (point list \<times> point list)" where
  "get_eye_landmarks landmarks =
     bind_res (take_rows landmarks [42 ..< 48]) (\<lambda>left_eye.
     bind_res (take_rows landmarks [36 ..< 42]) (\<lambda>right_eye.
       Inr (left_eye, right_eye)))"

text \<open>\<^verbatim>\<open>FaceDetector.get_mouth_landmarks\<close>: the outer rows 48..59, then the inner rows 60..67.\<close>

definition get_mouth_landmarks :: "point list \<Rightarrow> py_error + point list" where
  "get_mouth_landmarks landmarks =
     bind_res (take_rows landmarks [48 ..< 60]) (\<lambda>outer.
     bind_res (take_rows landmarks [60 ..< 68]) (\<lambda>inner.
       Inr (outer @ inner)))"

record detection_result =
  face_detected :: bool
  ear :: real
  left_ear_dr :: real
  right_ear_dr :: real
  eyes_closed :: bool
  blink_count_dr :: nat
  mar_dr :: real
  is_yawning_dr :: bool
  yawn_count :: nat
  pitch_dr :: real
  yaw_dr :: real
  roll_dr :: real
  head_down :: bool
  head_tilted :: bool
  drowsiness_score :: real
  is_drowsy_dr :: bool
  is_fatigued :: bool
  landmarks_dr :: "point list option"
  processing_time_ms :: real

text \<open>The defaults of the \<^verbatim>\<open>DetectionResult\<close> dataclass.\<close>

definition DetectionResult :: detection_result where
  "DetectionResult =
     \<lparr>face_detected = False, ear = 0, left_ear_dr = 0, right_ear_dr = 0, eyes_closed = False,
      blink_count_dr = 0, mar_dr = 0, is_yawning_dr = False, yawn_count = 0, pitch_dr = 0,
      yaw_dr = 0, roll_dr = 0, head_down = False, head_tilted = False, drowsiness_score = 0,
      is_drowsy_dr = False, is_fatigued = False, landmarks_dr = None, processing_time_ms = 0\<rparr>"

text \<open>The fields of \<^verbatim>\<open>Config\<close> that the core reads.\<close>

record config =
  ear_threshold_cfg :: real
  mar_threshold_cfg :: real
  drowsy_time_seconds :: real
  blink_time_ms :: real
  yawn_consecutive_threshold :: int
  head_pose_threshold :: real
  camera_width :: int
  camera_height :: int
  camera_fps :: int
  sound_enabled_cfg :: bool
  visual_enabled_cfg :: bool
  alert_cooldown_seconds :: real

text \<open>\<^verbatim>\<open>int(x)\<close> on a float: truncation towards zero.\<close>

definition int_of_float :: "real \<Rightarrow> int" where
  "int_of_float x = (if 0 \<le> x then \<lfloor>x\<rfloor> else \<lceil>x\<rceil>)"

record drowsiness_detector =
  drowsy_frames_threshold_dd :: int
  blink_frames_threshold :: int
  eye_tracker :: eye_tracker
  yawn_detector :: yawn_detector
  head_pose :: head_pose_estimator
  alert_system :: alert_system
  frame_count :: nat
  start_time :: real

text \<open>\<^verbatim>\<open>DrowsinessDetector.__init__\<close> for a given configuration; the trackers take the
  constructor defaults for the parameters that are not passed (history size 30,
  15 yawn frames, roll threshold 20).\<close>

definition DrowsinessDetector :: "config \<Rightarrow> bool \<Rightarrow> real \<Rightarrow> drowsiness_detector" where
  "DrowsinessDetector cfg audio_init_failed now =
     (let fps = real_of_int (camera_fps cfg);
          drowsy_thr = int_of_float (drowsy_time_seconds cfg * fps);
          blink_thr = int_of_float ((blink_time_ms cfg / 1000) * fps)
      in \<lparr>drowsy_frames_threshold_dd = drowsy_thr,
          blink_frames_threshold = blink_thr,
          eye_tracker = EyeTracker (ear_threshold_cfg cfg) 30 drowsy_thr,
          yawn_detector = YawnDetector (mar_threshold_cfg cfg) 15 30 (yawn_consecutive_threshold cfg),
          head_pose = HeadPoseEstimator (head_pose_threshold cfg) 20 (camera_width cfg)
                        (camera_height cfg),
          alert_system = AlertSystem (sound_enabled_cfg cfg) (visual_enabled_cfg cfg)
                           (alert_cooldown_seconds cfg) audio_init_failed,
          frame_count = 0, start_time = now\<rparr>)"

text \<open>What one call of \<^verbatim>\<open>process_frame\<close> reads from outside the core: the answer of
  \<^verbatim>\<open>face_detector.get_landmarks(frame)\<close>, \<^verbatim>\<open>frame.shape[:2]\<close>, the outcome of the pose
  solve, and the clock at the start of the call, inside \<^verbatim>\<open>trigger_alert\<close>, and at the end.\<close>

record frame_input =
  found_landmarks :: "point list option"
  frame_shape :: "int \<times> int"
  solved_pose :: "pnp_solution option"
  time_start :: real
  time_alert :: real
  time_end :: real

text \<open>\<^verbatim>\<open>DrowsinessDetector.process_frame\<close>.\<close>

definition process_frame ::
  "frame_input \<Rightarrow> drowsiness_detector \<Rightarrow> py_error + (detection_result \<times> drowsiness_detector)" where
  "process_frame frame self =
     (let d0 = self\<lparr>frame_count := frame_count self + 1\<rparr>;
          result = DetectionResult
      in case found_landmarks frame of
           None \<Rightarrow>
             Inr (result\<lparr>processing_time_ms := (time_end frame - time_start frame) * 1000\<rparr>, d0)
         | Some landmarks \<Rightarrow>
             (let r1 = result\<lparr>face_detected := True, landmarks_dr := Some landmarks\<rparr> in
              bind_res (get_eye_landmarks landmarks) (\<lambda>(left_eye, right_eye).
              bind_res (process_eyes left_eye right_eye (eye_tracker d0)) (\<lambda>(eye_m, et).
                let d1 = d0\<lparr>eye_tracker := et\<rparr>;
                    r2 = r1\<lparr>ear := avg_ear eye_m, left_ear_dr := left_ear eye_m,
                            right_ear_dr := right_ear eye_m, eyes_closed := is_closed eye_m,
                            blink_count_dr := blink_count (eye_tracker d1)\<rparr>
                in
              bind_res (get_mouth_landmarks landmarks) (\<lambda>mouth_landmarks.
              bind_res (process_mouth mouth_landmarks (yawn_detector d1)) (\<lambda>(yawn_m, yd).
                let d2 = d1\<lparr>yawn_detector := yd\<rparr>;
                    r3 = r2\<lparr>mar_dr := mar yawn_m, is_yawning_dr := is_yawning_ym yawn_m,
                            yawn_count := total_yawns_ym yawn_m\<rparr>
                in
              bind_res (estimate_pose landmarks (frame_shape frame) (solved_pose frame)
                          (head_pose d2)) (\<lambda>(head_m, hp).
                let d3 = d2\<lparr>head_pose := hp\<rparr>;
                    r4 = r3\<lparr>pitch_dr := pitch head_m, yaw_dr := yaw head_m, roll_dr := roll head_m,
                            head_down := is_head_down head_m,
                            head_tilted := is_head_tilted head_m\<rparr>
                in
              bind_res (get_drowsiness_score (eye_tracker d3)) (\<lambda>eye_drowsiness.
                let yawn_fatigue = (if is_fatigue_indicated (yawn_detector d3) then 30 else 0);
                    head_drowsiness = (if is_head_down head_m then 20 else 0);
                    r5 = r4\<lparr>drowsiness_score :=
                              min (eye_drowsiness + yawn_fatigue + head_drowsiness) 100,
                            is_drowsy_dr := (is_drowsy (eye_tracker d3) \<or> is_head_down head_m),
                            is_fatigued := is_fatigue_indicated (yawn_detector d3)\<rparr>;
                    d4 = (if is_drowsy_dr r5 then
                            d3\<lparr>alert_system :=
                                 snd (trigger_alert (time_alert frame) ''drowsiness''
                                        (alert_system d3))\<rparr>
                          else if is_fatigued r5 then
                            d3\<lparr>alert_system :=
                                 snd (trigger_alert (time_alert frame) ''fatigue''
                                        (alert_system d3))\<rparr>
                          else if \<not> eyes_closed r5 \<and> \<not> is_yawning_dr r5 then
                            d3\<lparr>alert_system := stop_alert (alert_system d3)\<rparr>
                          else d3)
                in Inr (r5\<lparr>processing_time_ms := (time_end frame - time_start frame) * 1000\<rparr>,
                        d4)))))))))"

text \<open>\<^verbatim>\<open>DrowsinessDetector.reset\<close>; \<open>now\<close> is the clock read for the new start time.\<close>

definition reset_detector :: "real \<Rightarrow> drowsiness_detector \<Rightarrow> drowsiness_detector" where
  "reset_detector now self =
     self\<lparr>eye_tracker := reset_eye (eye_tracker self),
          yawn_detector := reset_yawn (yawn_detector self),
          alert_system := reset_alert (alert_system self),
          frame_count := 0, start_time := now\<rparr>"

subsection \<open>Feeding frame sequences\<close>

text \<open>A caller that feeds the eye tracker one frame after the other (each frame a pair of
  left and right eye landmark arrays) and stops at the first exception.\<close>

fun feed_eyes :: "(point list \<times> point list) list \<Rightarrow> eye_tracker \<Rightarrow> py_error + eye_tracker" where
  "feed_eyes [] s = Inr s"
| "feed_eyes (f # fs) s =
     bind_res (process_eyes (fst f) (snd f) s) (\<lambda>(m, s'). feed_eyes fs s')"

text \<open>The same for the yawn detector and a sequence of mouth landmark arrays.\<close>

fun feed_mouth :: "point list list \<Rightarrow> yawn_detector \<Rightarrow> py_error + yawn_detector" where
  "feed_mouth [] s = Inr s"
| "feed_mouth (f # fs) s = bind_res (process_mouth f s) (\<lambda>(m, s'). feed_mouth fs s')"

text \<open>The average EAR of a frame, as \<open>process_eyes\<close> computes it, and the two kinds of
  frame it distinguishes by comparing that average with the threshold \<open>thr\<close>.\<close>

definition frame_ear :: "point list \<times> point list \<Rightarrow> py_error + real" where
  "frame_ear f =
     bind_res (calculate_ear (fst f)) (\<lambda>l. bind_res (calculate_ear (snd f)) (\<lambda>r. Inr ((l + r) / 2)))"

definition closed_frame :: "real \<Rightarrow> point list \<times> point list \<Rightarrow> bool" where
  "closed_frame thr f = (case frame_ear f of Inr a \<Rightarrow> a < thr | Inl e \<Rightarrow> False)"

definition open_frame :: "real \<Rightarrow> point list \<times> point list \<Rightarrow> bool" where
  "open_frame thr f = (case frame_ear f of Inr a \<Rightarrow> \<not> a < thr | Inl e \<Rightarrow> False)"

text \<open>The two kinds of mouth frame that \<open>process_mouth\<close> distinguishes.\<close>

definition open_mouth :: "real \<Rightarrow> point list \<Rightarrow> bool" where
  "open_mouth thr f = (case calculate_mar f of Inr m \<Rightarrow> thr < m | Inl e \<Rightarrow> False)"

definition shut_mouth :: "real \<Rightarrow> point list \<Rightarrow> bool" where
  "shut_mouth thr f = (case calculate_mar f of Inr m \<Rightarrow> \<not> thr < m | Inl e \<Rightarrow> False)"

subsection \<open>The score formula and the cooldown as the specification words them\<close>

text \<open>The specification's formula for the eye drowsiness score: 50 times the fraction of
  history entries below the threshold plus 50 times
  \<open>min (closed_frame_count / drowsy_frames_threshold, 1)\<close>. On an empty history the fraction
  is 0 / 0, which HOL reads as 0.\<close>

definition history_fraction :: "eye_tracker \<Rightarrow> real" where
  "history_fraction s =
     real (length (filter (\<lambda>e. e < ear_threshold s) (ear_history s)))
     / real (length (ear_history s))"

definition closure_fraction :: "eye_tracker \<Rightarrow> real" where
  "closure_fraction s =
     min (real (closed_frame_count s) / real_of_int (drowsy_frames_threshold s)) 1"

definition score_formula :: "eye_tracker \<Rightarrow> real" where
  "score_formula s = 50 * history_fraction s + 50 * closure_fraction s"

text \<open>Calls made to the dispatcher, each with the wall-clock time at which it is made.
  \<open>run_calls\<close> performs them in order; \<open>stop_alert\<close> itself never reads the clock.\<close>

datatype call = Trigger real | Stop real

fun run_calls :: "call list \<Rightarrow> alert_system \<Rightarrow> alert_system" where
  "run_calls [] s = s"
| "run_calls (Trigger t # cs) s = run_calls cs (snd (trigger_alert t ''drowsiness'' s))"
| "run_calls (Stop t # cs) s = run_calls cs (stop_alert s)"

text \<open>The times at which an alert ended during such a run, oldest first: the times of the
  \<open>Stop\<close> calls that found the dispatcher alerting. This is the quantity the specification
  measures the cooldown from; the code keeps no record of it.\<close>

fun alert_ends :: "call list \<Rightarrow> alert_system \<Rightarrow> real list" where
  "alert_ends [] s = []"
| "alert_ends (Trigger t # cs) s = alert_ends cs (snd (trigger_alert t ''drowsiness'' s))"
| "alert_ends (Stop t # cs) s =
     (if is_alerting s then [t] else []) @ alert_ends cs (stop_alert s)"

subsection \<open>Sample inputs\<close>

text \<open>The landmark arrays of \<^verbatim>\<open>tests/test_detection.py\<close>: a closed eye (EAR 0.1), an open eye
  (EAR 1), an eye of zero width, a closed mouth (MAR 1/15) and a wide open mouth (MAR 1), the mouths with 12 outer
  and 8 inner points; and a 68-point face with both eyes and the mouth closed.\<close>

definition eye_shut_pts :: "point list" where
  "eye_shut_pts = [(0, 10), (5, 9), (15, 9), (20, 10), (15, 11), (5, 11)]"

definition eye_open_pts :: "point list" where
  "eye_open_pts = [(0, 10), (5, 0), (15, 0), (20, 10), (15, 20), (5, 20)]"

definition zero_width_eye :: "point list" where
  "zero_width_eye = [(10, 10), (10, 5), (10, 5), (10, 10), (10, 15), (10, 15)]"

definition mouth_shut_pts :: "point list" where
  "mouth_shut_pts =
     replicate 12 (0, 0) @
     [(20, 50), (0, 0), (50, 48), (60, 48), (80, 50), (60, 52), (50, 52), (0, 0)]"

definition mouth_open_pts :: "point list" where
  "mouth_open_pts =
     replicate 12 (0, 0) @
     [(20, 50), (0, 0), (50, 20), (60, 20), (80, 50), (60, 80), (50, 80), (0, 0)]"

definition face_pts :: "point list" where
  "face_pts = replicate 36 (0, 0) @ eye_shut_pts @ eye_shut_pts @ mouth_shut_pts"

text \<open>The default configuration of \<^verbatim>\<open>Config\<close>, a frame without a face and a frame with the
  face above, both 640 by 480, with a failed pose solve.\<close>

definition default_config :: config where
  "default_config =
     \<lparr>ear_threshold_cfg = 1 / 4, mar_threshold_cfg = 3 / 4, drowsy_time_seconds = 2,
      blink_time_ms = 100, yawn_consecutive_threshold = 3, head_pose_threshold = 30,
      camera_width = 640, camera_height = 480, camera_fps = 30, sound_enabled_cfg = True,
      visual_enabled_cfg = True, alert_cooldown_seconds = 3\<rparr>"

definition no_face_frame :: frame_input where
  "no_face_frame =
     \<lparr>found_landmarks = None, frame_shape = (480, 640), solved_pose = None,
      time_start = 100, time_alert = 100, time_end = 101\<rparr>"

definition face_frame :: frame_input where
  "face_frame =
     \<lparr>found_landmarks = Some face_pts, frame_shape = (480, 640), solved_pose = None,
      time_start = 100, time_alert = 100, time_end = 101\<rparr>"

section \<open>Basic facts\<close>

lemma bind_res_Inl [simp]: "bind_res (Inl e) f = Inl e"
  by (simp add: bind_res_def)

lemma bind_res_Inr [simp]: "bind_res (Inr a) f = f a"
  by (simp add: bind_res_def)

lemma euclidean_vertical [simp]: "euclidean (x, a) (x, b) = \<bar>a - b\<bar>"
  by (simp add: euclidean_def)

lemma euclidean_horizontal [simp]: "euclidean (a, y) (b, y) = \<bar>a - b\<bar>"
  by (simp add: euclidean_def)

lemma euclidean_nonneg: "0 \<le> euclidean u v"
  by (simp add: euclidean_def)

lemma euclidean_eq_0_iff: "euclidean u v = 0 \<longleftrightarrow> u = v"
  by (cases u; cases v) (simp add: euclidean_def)

lemma calculate_ear_six:
  "6 \<le> length eye \<Longrightarrow>
   calculate_ear eye =
     Inr (if euclidean (eye ! 0) (eye ! 3) = 0 then 0
          else (euclidean (eye ! 1) (eye ! 5) + euclidean (eye ! 2) (eye ! 4))
               / (2 * euclidean (eye ! 0) (eye ! 3)))"
  by (auto simp: calculate_ear_def getitem_def truediv_def Let_def)

lemma calculate_ear_no_zero_division: "calculate_ear eye \<noteq> Inl ZeroDivisionError"
  by (simp add: calculate_ear_def getitem_def truediv_def Let_def bind_res_def)

lemma calculate_mar_inner:
  "20 \<le> length m \<Longrightarrow>
   calculate_mar m =
     Inr (if euclidean (m ! 12) (m ! 16) = 0 then 0
          else (euclidean (m ! 14) (m ! 18) + euclidean (m ! 15) (m ! 17))
               / (2 * euclidean (m ! 12) (m ! 16)))"
  by (auto simp: calculate_mar_def getitem_def truediv_def Let_def)

lemma calculate_mar_outer:
  "11 \<le> length m \<Longrightarrow> length m < 20 \<Longrightarrow>
   calculate_mar m =
     Inr (if euclidean (m ! 0) (m ! 6) = 0 then 0
          else (euclidean (m ! 2) (m ! 10) + euclidean (m ! 4) (m ! 8))
               / (2 * euclidean (m ! 0) (m ! 6)))"
  by (auto simp: calculate_mar_def getitem_def truediv_def Let_def)

lemma calculate_mar_no_zero_division: "calculate_mar m \<noteq> Inl ZeroDivisionError"
  by (simp add: calculate_mar_def getitem_def truediv_def Let_def bind_res_def)

section \<open>Eye tracker: closure, blinks and drowsiness\<close>

lemma closed_frameE:
  assumes "closed_frame thr f"
  obtains x y where "calculate_ear (fst f) = Inr x" "calculate_ear (snd f) = Inr y"
    "(x + y) / 2 < thr"
  using assms
  by (auto simp: closed_frame_def frame_ear_def bind_res_def split: sum.splits)

lemma open_frameE:
  assumes "open_frame thr f"
  obtains x y where "calculate_ear (fst f) = Inr x" "calculate_ear (snd f) = Inr y"
    "\<not> (x + y) / 2 < thr"
  using assms
  by (auto simp: open_frame_def frame_ear_def bind_res_def split: sum.splits)

lemma process_eyes_closed:
  assumes "closed_frame (ear_threshold s) f"
  shows "\<exists>m. process_eyes (fst f) (snd f) s =
            Inr (m, s\<lparr>ear_history := deque_append (history_size s) (ear_history s) (avg_ear m),
                      closed_frame_count := closed_frame_count s + 1, is_blinking := True\<rparr>)
            \<and> is_closed m \<and> closure_duration_frames m = closed_frame_count s + 1"
proof -
  from assms obtain x y where "calculate_ear (fst f) = Inr x" "calculate_ear (snd f) = Inr y"
    "(x + y) / 2 < ear_threshold s"
    by (rule closed_frameE)
  then show ?thesis
    by (simp add: process_eyes_def Let_def)
qed

lemma process_eyes_open:
  assumes "open_frame (ear_threshold s) f"
  shows "\<exists>m. process_eyes (fst f) (snd f) s =
            Inr (m, s\<lparr>ear_history := deque_append (history_size s) (ear_history s) (avg_ear m),
                      blink_count :=
                        (if is_blinking s \<and> 0 < closed_frame_count s
                            \<and> int (closed_frame_count s) < drowsy_frames_threshold s
                         then blink_count s + 1 else blink_count s),
                      closed_frame_count := 0, is_blinking := False\<rparr>)
            \<and> \<not> is_closed m \<and> closure_duration_frames m = 0"
proof -
  from assms obtain x y where "calculate_ear (fst f) = Inr x" "calculate_ear (snd f) = Inr y"
    "\<not> (x + y) / 2 < ear_threshold s"
    by (rule open_frameE)
  then show ?thesis
    by (simp add: process_eyes_def Let_def)
qed

lemma feed_eyes_closed:
  assumes "\<forall>f\<in>set fs. closed_frame (ear_threshold s) f"
  shows "\<exists>s'. feed_eyes fs s = Inr s'
           \<and> closed_frame_count s' = closed_frame_count s + length fs
           \<and> blink_count s' = blink_count s
           \<and> ear_threshold s' = ear_threshold s
           \<and> drowsy_frames_threshold s' = drowsy_frames_threshold s
           \<and> history_size s' = history_size s
           \<and> (fs \<noteq> [] \<longrightarrow> is_blinking s')"
  using assms
proof (induction fs arbitrary: s)
  case Nil
  then show ?case by simp
next
  case (Cons f fs)
  from Cons.prems have "closed_frame (ear_threshold s) f" by simp
  from process_eyes_closed [OF this] obtain m s1 where
    step: "process_eyes (fst f) (snd f) s = Inr (m, s1)"
    and s1: "s1 = s\<lparr>ear_history := deque_append (history_size s) (ear_history s) (avg_ear m),
                    closed_frame_count := closed_frame_count s + 1, is_blinking := True\<rparr>"
    by blast
  from Cons.prems s1 have "\<forall>g\<in>set fs. closed_frame (ear_threshold s1) g" by simp
  from Cons.IH [OF this] obtain s' where
    rest: "feed_eyes fs s1 = Inr s'"
      "closed_frame_count s' = closed_frame_count s1 + length fs"
      "blink_count s' = blink_count s1" "ear_threshold s' = ear_threshold s1"
      "drowsy_frames_threshold s' = drowsy_frames_threshold s1"
      "history_size s' = history_size s1" "fs \<noteq> [] \<longrightarrow> is_blinking s'"
    by blast
  have "fs = [] \<Longrightarrow> s' = s1" using rest(1) by simp
  with step rest s1 show ?case
    by (cases "fs = []") auto
qed

lemma feed_eyes_closed_prefix:
  assumes "\<forall>f\<in>set fs. closed_frame (ear_threshold s) f"
  shows "\<exists>sn. feed_eyes (take n fs) s = Inr sn
           \<and> closed_frame_count sn = closed_frame_count s + min (length fs) n
           \<and> drowsy_frames_threshold sn = drowsy_frames_threshold s"
proof -
  have "\<forall>f\<in>set (take n fs). closed_frame (ear_threshold s) f"
    using assms by (meson in_set_takeD)
  from feed_eyes_closed [OF this] show ?thesis by auto
qed

lemma ear_shut: "calculate_ear eye_shut_pts = Inr (1 / 10)"
  by (simp add: calculate_ear_six eye_shut_pts_def)

lemma ear_open: "calculate_ear eye_open_pts = Inr 1"
  by (simp add: calculate_ear_six eye_open_pts_def)

lemma shut_frame_closed: "closed_frame (1 / 4) (eye_shut_pts, eye_shut_pts)"
  by (simp add: closed_frame_def frame_ear_def ear_shut)

lemma open_frame_open: "open_frame (1 / 4) (eye_open_pts, eye_open_pts)"
  by (simp add: open_frame_def frame_ear_def ear_open)

text \<open>A configured drowsiness time shorter than one frame (0.01 s at 30 frames per second)
  gives the eye tracker the threshold \<open>int(0.3) = 0\<close>.\<close>

lemma short_drowsy_time_zero_threshold:
  "eye_tracker (DrowsinessDetector (default_config\<lparr>drowsy_time_seconds := 1 / 100\<rparr>) False 0)
     = EyeTracker (1 / 4) 30 0"
  by (simp add: DrowsinessDetector_def default_config_def int_of_float_def Let_def)

text \<open>
  Claim C3, as amended. \<open>is_drowsy\<close> holds exactly when \<open>closed_frame_count\<close> has reached
  \<open>drowsy_frames_threshold\<close>. From every tracker state, a run of closed frames (average EAR
  below \<open>ear_threshold\<close>) is processed without an exception, and it leaves the tracker drowsy
  if the closure, counted from its first frame (the frames already counted in
  \<open>closed_frame_count\<close> plus the frames of the run), is at least \<open>drowsy_frames_threshold\<close> long;
  so does every prefix of the run with which the closure has reached that length: drowsiness
  lasts as long as the closure does. When
  \<open>drowsy_frames_threshold\<close> is at least 1, the first open frame after the run makes
  \<open>is_drowsy\<close> false at once.
\<close>

theorem sustained_closure_drowsy:
  "is_drowsy s = (drowsy_frames_threshold s \<le> int (closed_frame_count s))
   \<and> ((\<forall>f\<in>set fs. closed_frame (ear_threshold s) f)
        \<and> drowsy_frames_threshold s \<le> int (closed_frame_count s + length fs)
      \<longrightarrow> (\<exists>s1. feed_eyes fs s = Inr s1 \<and> is_drowsy s1
             \<and> (\<forall>n. drowsy_frames_threshold s \<le> int (closed_frame_count s + n) \<and> n \<le> length fs
                   \<longrightarrow> (\<exists>sn. feed_eyes (take n fs) s = Inr sn \<and> is_drowsy sn))
             \<and> (\<forall>g. 0 < drowsy_frames_threshold s \<and> open_frame (ear_threshold s) g
                   \<longrightarrow> (\<exists>m s2. process_eyes (fst g) (snd g) s1 = Inr (m, s2)
                          \<and> \<not> is_closed m \<and> \<not> is_drowsy s2))))"
proof (intro conjI impI)
  show "is_drowsy s = (drowsy_frames_threshold s \<le> int (closed_frame_count s))"
    by (simp add: is_drowsy_def)
next
  assume asm: "(\<forall>f\<in>set fs. closed_frame (ear_threshold s) f)
                 \<and> drowsy_frames_threshold s \<le> int (closed_frame_count s + length fs)"
  then have closed: "\<forall>f\<in>set fs. closed_frame (ear_threshold s) f"
    and long: "drowsy_frames_threshold s \<le> int (closed_frame_count s + length fs)"
    by simp_all
  from feed_eyes_closed [OF closed] obtain s1 where
    s1: "feed_eyes fs s = Inr s1" "closed_frame_count s1 = closed_frame_count s + length fs"
      "ear_threshold s1 = ear_threshold s"
      "drowsy_frames_threshold s1 = drowsy_frames_threshold s"
    by blast
  have drowsy1: "is_drowsy s1"
    using s1 long by (simp add: is_drowsy_def)
  have during: "\<exists>sn. feed_eyes (take n fs) s = Inr sn \<and> is_drowsy sn"
    if "drowsy_frames_threshold s \<le> int (closed_frame_count s + n) \<and> n \<le> length fs" for n
  proof -
    from feed_eyes_closed_prefix [OF closed, of n] obtain sn where
      "feed_eyes (take n fs) s = Inr sn"
      "closed_frame_count sn = closed_frame_count s + min (length fs) n"
      "drowsy_frames_threshold sn = drowsy_frames_threshold s"
      by blast
    with that show ?thesis by (auto simp: is_drowsy_def)
  qed
  have reopen: "\<exists>m s2. process_eyes (fst g) (snd g) s1 = Inr (m, s2)
                  \<and> \<not> is_closed m \<and> \<not> is_drowsy s2"
    if "0 < drowsy_frames_threshold s \<and> open_frame (ear_threshold s) g" for g
  proof -
    from that s1 have "open_frame (ear_threshold s1) g" by simp
    from process_eyes_open [OF this] obtain m s2 where
      "process_eyes (fst g) (snd g) s1 = Inr (m, s2)" "\<not> is_closed m"
      "closed_frame_count s2 = 0" "drowsy_frames_threshold s2 = drowsy_frames_threshold s1"
      by auto
    with that s1 show ?thesis by (auto simp: is_drowsy_def)
  qed
  from s1(1) drowsy1 during reopen
  show "\<exists>s1. feed_eyes fs s = Inr s1 \<and> is_drowsy s1
          \<and> (\<forall>n. drowsy_frames_threshold s \<le> int (closed_frame_count s + n) \<and> n \<le> length fs
                \<longrightarrow> (\<exists>sn. feed_eyes (take n fs) s = Inr sn \<and> is_drowsy sn))
          \<and> (\<forall>g. 0 < drowsy_frames_threshold s \<and> open_frame (ear_threshold s) g
                \<longrightarrow> (\<exists>m s2. process_eyes (fst g) (snd g) s1 = Inr (m, s2)
                       \<and> \<not> is_closed m \<and> \<not> is_drowsy s2))"
    by blast
qed

theorem sustained_closure_drowsy_witness:
  "\<not> is_drowsy (EyeTracker (1 / 4) 30 2)
   \<and> (\<exists>s1. feed_eyes [(eye_shut_pts, eye_shut_pts), (eye_shut_pts, eye_shut_pts)]
              (EyeTracker (1 / 4) 30 2) = Inr s1
          \<and> is_drowsy s1
          \<and> (\<exists>m s2. process_eyes eye_open_pts eye_open_pts s1 = Inr (m, s2)
                 \<and> \<not> is_closed m \<and> \<not> is_drowsy s2))"
  using sustained_closure_drowsy
    [of "EyeTracker (1 / 4) 30 2"
        "[(eye_shut_pts, eye_shut_pts), (eye_shut_pts, eye_shut_pts)]"]
    shut_frame_closed open_frame_open
  by (fastforce simp: EyeTracker_def)

text \<open>
  Claim C3 as stated, for every tracker state, fails for a tracker built with
  \<open>drowsy_frames_threshold = 0\<close> (what \<^verbatim>\<open>int(drowsy_time_seconds * fps)\<close> gives for a
  drowsiness time shorter than one frame): after a closed frame and then an open frame the
  count is back to 0, and \<open>0 \<ge> 0\<close> keeps \<open>is_drowsy\<close> true.
\<close>

theorem zero_threshold_stays_drowsy:
  "closed_frame (1 / 4) (eye_shut_pts, eye_shut_pts)
   \<and> open_frame (1 / 4) (eye_open_pts, eye_open_pts)
   \<and> map_sum id is_drowsy
       (feed_eyes [(eye_shut_pts, eye_shut_pts), (eye_open_pts, eye_open_pts)]
          (EyeTracker (1 / 4) 30 0)) = Inr True"
  by (simp add: shut_frame_closed open_frame_open process_eyes_def ear_shut ear_open
      EyeTracker_def Let_def is_drowsy_def)

text \<open>
  Claim C4. From every tracker state, take a run of one or more closed frames (average EAR
  below \<open>ear_threshold\<close>) such that the closure, counted from its first frame, stays shorter
  than \<open>drowsy_frames_threshold\<close>: the frames already counted in \<open>closed_frame_count\<close> plus
  the frames of the run. When the run starts the closure (\<open>closed_frame_count = 0\<close>) this is a
  closure of \<open>k\<close> frames with \<open>0 < k < drowsy_frames_threshold\<close>. Such a run followed by an open
  frame is processed without an exception; \<open>blink_count\<close> is unchanged during the run and
  exactly one higher after the open frame; \<open>is_drowsy\<close> is false after every frame of the run
  and after the open frame; and the open frame resets \<open>closed_frame_count\<close> to 0.
\<close>

theorem short_closure_is_one_blink:
  assumes nonempty: "fs \<noteq> []"
    and short: "int (closed_frame_count s + length fs) < drowsy_frames_threshold s"
    and closed: "\<forall>f\<in>set fs. closed_frame (ear_threshold s) f"
    and reopen: "open_frame (ear_threshold s) g"
  shows "\<exists>s1 m s2. feed_eyes fs s = Inr s1
           \<and> process_eyes (fst g) (snd g) s1 = Inr (m, s2)
           \<and> blink_count s1 = blink_count s
           \<and> blink_count s2 = blink_count s + 1
           \<and> closed_frame_count s2 = 0
           \<and> \<not> is_drowsy s2
           \<and> (\<forall>n\<le>length fs. \<exists>sn. feed_eyes (take n fs) s = Inr sn \<and> \<not> is_drowsy sn)"
proof -
  from feed_eyes_closed [OF closed] nonempty obtain s1 where
    s1: "feed_eyes fs s = Inr s1" "closed_frame_count s1 = closed_frame_count s + length fs"
      "blink_count s1 = blink_count s" "ear_threshold s1 = ear_threshold s"
      "drowsy_frames_threshold s1 = drowsy_frames_threshold s" "is_blinking s1"
    by blast
  from reopen s1 have "open_frame (ear_threshold s1) g" by simp
  from process_eyes_open [OF this] obtain m s2 where
    s2: "process_eyes (fst g) (snd g) s1 = Inr (m, s2)"
      "blink_count s2 =
         (if is_blinking s1 \<and> 0 < closed_frame_count s1
             \<and> int (closed_frame_count s1) < drowsy_frames_threshold s1
          then blink_count s1 + 1 else blink_count s1)"
      "closed_frame_count s2 = 0" "drowsy_frames_threshold s2 = drowsy_frames_threshold s1"
    by auto
  have blink: "blink_count s2 = blink_count s + 1"
    using s1 s2(2) nonempty short by simp
  have awake: "\<not> is_drowsy s2"
    using s1 s2 short by (simp add: is_drowsy_def)
  have during: "\<exists>sn. feed_eyes (take n fs) s = Inr sn \<and> \<not> is_drowsy sn" if "n \<le> length fs" for n
  proof -
    from feed_eyes_closed_prefix [OF closed, of n] obtain sn where
      "feed_eyes (take n fs) s = Inr sn"
      "closed_frame_count sn = closed_frame_count s + min (length fs) n"
      "drowsy_frames_threshold sn = drowsy_frames_threshold s"
      by blast
    with that short show ?thesis by (auto simp: is_drowsy_def)
  qed
  from s1(1,3) s2(1,3) blink awake during show ?thesis by blast
qed

theorem short_closure_is_one_blink_witness:
  "\<exists>s1 m s2. feed_eyes [(eye_shut_pts, eye_shut_pts), (eye_shut_pts, eye_shut_pts)]
                (EyeTracker (1 / 4) 30 10) = Inr s1
     \<and> process_eyes eye_open_pts eye_open_pts s1 = Inr (m, s2)
     \<and> blink_count s1 = 0 \<and> blink_count s2 = 1 \<and> closed_frame_count s2 = 0
     \<and> \<not> is_drowsy s2"
  using short_closure_is_one_blink
    [where s = "EyeTracker (1 / 4) 30 10"
       and fs = "[(eye_shut_pts, eye_shut_pts), (eye_shut_pts, eye_shut_pts)]"
       and g = "(eye_open_pts, eye_open_pts)"]
    shut_frame_closed open_frame_open
  by (fastforce simp: EyeTracker_def)

section \<open>Eye tracker: drowsiness score\<close>

lemma score_parts_bounds:
  assumes "0 < drowsy_frames_threshold s"
  shows "0 \<le> history_fraction s" "history_fraction s \<le> 1"
    "0 \<le> closure_fraction s" "closure_fraction s \<le> 1"
proof -
  show "0 \<le> history_fraction s"
    by (simp add: history_fraction_def)
  have "length (filter (\<lambda>e. e < ear_threshold s) (ear_history s)) \<le> length (ear_history s)"
    by simp
  then show "history_fraction s \<le> 1"
    by (simp add: history_fraction_def divide_le_eq_1)
  show "0 \<le> closure_fraction s"
    using assms by (simp add: closure_fraction_def)
  show "closure_fraction s \<le> 1"
    by (simp add: closure_fraction_def)
qed

lemma get_drowsiness_score_formula:
  assumes "0 < drowsy_frames_threshold s" "ear_history s \<noteq> []"
  shows "get_drowsiness_score s = Inr (score_formula s)"
proof -
  from score_parts_bounds [OF assms(1)]
  have "50 * history_fraction s + 50 * closure_fraction s \<le> 100"
    by linarith
  then have "min (history_fraction s * 50 + closure_fraction s * 50) 100 = score_formula s"
    by (simp add: score_formula_def)
  with assms show ?thesis
    by (simp add: get_drowsiness_score_def truediv_def Let_def sum_list_triv
        history_fraction_def closure_fraction_def)
qed

lemma get_drowsiness_score_empty: "ear_history s = [] \<Longrightarrow> get_drowsiness_score s = Inr 0"
  by (simp add: get_drowsiness_score_def)

lemma get_drowsiness_score_zero_threshold:
  "ear_history s \<noteq> [] \<Longrightarrow> drowsy_frames_threshold s = 0
   \<Longrightarrow> get_drowsiness_score s = Inl ZeroDivisionError"
  by (simp add: get_drowsiness_score_def truediv_def Let_def)

text \<open>
  Claim C8, as amended. For every tracker state whose \<open>drowsy_frames_threshold\<close> is at least 1,
  \<open>get_drowsiness_score\<close> returns 0 when the history is empty and otherwise the value of the
  formula, 50 times the fraction of history entries below \<open>ear_threshold\<close> plus 50 times
  \<open>min (closed_frame_count / drowsy_frames_threshold, 1)\<close>; in both cases the result lies
  in \<open>[0, 100]\<close>.
\<close>

theorem drowsiness_score_formula_and_range:
  assumes "0 < drowsy_frames_threshold s"
  shows "get_drowsiness_score s = Inr (if ear_history s = [] then 0 else score_formula s)
         \<and> (\<exists>v. get_drowsiness_score s = Inr v \<and> 0 \<le> v \<and> v \<le> 100)"
proof (cases "ear_history s = []")
  case True
  then show ?thesis by (simp add: get_drowsiness_score_empty)
next
  case False
  from score_parts_bounds [OF assms]
  have "0 \<le> score_formula s \<and> score_formula s \<le> 100"
    by (simp add: score_formula_def)
  with False get_drowsiness_score_formula [OF assms False] show ?thesis by simp
qed

theorem drowsiness_score_formula_and_range_witness:
  "get_drowsiness_score ((EyeTracker (1 / 4) 30 5)\<lparr>ear_history := [1 / 10, 1], closed_frame_count := 1\<rparr>)
     = Inr 35"
  using drowsiness_score_formula_and_range
    [of "(EyeTracker (1 / 4) 30 5)\<lparr>ear_history := [1 / 10, 1], closed_frame_count := 1\<rparr>"]
  by (simp add: EyeTracker_def score_formula_def history_fraction_def closure_fraction_def)

text \<open>
  Claim C8 as stated, for every tracker state, fails in two ways. A tracker with a history of
  capacity 0 (\<^verbatim>\<open>deque(maxlen=0)\<close>) keeps an empty history while \<open>closed_frame_count\<close> grows:
  after one closed frame the code returns 0 through its empty-history guard, whereas the
  closure term of the formula alone is \<open>50 / 45\<close>. And with \<open>drowsy_frames_threshold = 0\<close> and
  a non-empty history the integer division raises, so no value in \<open>[0, 100]\<close> is returned.
\<close>

theorem empty_history_score_differs:
  "feed_eyes [(eye_shut_pts, eye_shut_pts)] (EyeTracker (1 / 4) 0 45)
     = Inr ((EyeTracker (1 / 4) 0 45)\<lparr>closed_frame_count := 1, is_blinking := True\<rparr>)
   \<and> get_drowsiness_score ((EyeTracker (1 / 4) 0 45)\<lparr>closed_frame_count := 1, is_blinking := True\<rparr>)
       = Inr 0
   \<and> score_formula ((EyeTracker (1 / 4) 0 45)\<lparr>closed_frame_count := 1, is_blinking := True\<rparr>)
       = 10 / 9
   \<and> get_drowsiness_score ((EyeTracker (1 / 4) 30 0)\<lparr>ear_history := [1 / 10]\<rparr>)
       = Inl ZeroDivisionError"
  by (simp add: process_eyes_def ear_shut EyeTracker_def Let_def deque_append_def
      get_drowsiness_score_def score_formula_def history_fraction_def closure_fraction_def
      truediv_def)

text \<open>
  Claim C10. With an empty EAR history \<open>get_drowsiness_score\<close> returns exactly 0: for a freshly
  constructed tracker, for a freshly reset one, and for any state whose history is empty,
  whatever its thresholds and counters.
\<close>

theorem empty_history_scores_zero:
  "get_drowsiness_score (EyeTracker thr n d) = Inr 0
   \<and> get_drowsiness_score (reset_eye s) = Inr 0
   \<and> get_drowsiness_score (s\<lparr>ear_history := []\<rparr>) = Inr 0"
  by (simp add: get_drowsiness_score_def EyeTracker_def reset_eye_def)

section \<open>Ratios on degenerate geometry\<close>

text \<open>
  Claim C7. On an eye array with its six rows, \<open>calculate_ear\<close> returns a value, and that value
  is exactly 0 when the horizontal pair (rows 0 and 3) is at distance 0. On a mouth array,
  \<open>calculate_mar\<close> returns a value, exactly 0 when the horizontal pair is at distance 0: the
  inner corners (rows 12 and 16) for 20 or more rows, the outer corners (rows 0 and 6) for
  the fallback on 11 to 19 rows, which covers the 12 outer points. On no input at all,
  of any length, does either function end in a division by zero: the division is only
  reached with a non-zero horizontal distance.
\<close>

theorem ratios_zero_on_zero_span:
  "(6 \<le> length eye \<longrightarrow>
      (\<exists>r. calculate_ear eye = Inr r)
      \<and> (euclidean (eye ! 0) (eye ! 3) = 0 \<longrightarrow> calculate_ear eye = Inr 0))
   \<and> calculate_ear eye \<noteq> Inl ZeroDivisionError
   \<and> (20 \<le> length m \<longrightarrow>
      (\<exists>r. calculate_mar m = Inr r)
      \<and> (euclidean (m ! 12) (m ! 16) = 0 \<longrightarrow> calculate_mar m = Inr 0))
   \<and> (11 \<le> length m \<and> length m < 20 \<longrightarrow>
      (\<exists>r. calculate_mar m = Inr r)
      \<and> (euclidean (m ! 0) (m ! 6) = 0 \<longrightarrow> calculate_mar m = Inr 0))
   \<and> calculate_mar m \<noteq> Inl ZeroDivisionError"
proof (intro conjI impI)
  show "calculate_ear eye \<noteq> Inl ZeroDivisionError"
    by (rule calculate_ear_no_zero_division)
  show "calculate_mar m \<noteq> Inl ZeroDivisionError"
    by (rule calculate_mar_no_zero_division)
next
  assume "6 \<le> length eye"
  then show "\<exists>r. calculate_ear eye = Inr r"
    by (simp add: calculate_ear_six)
next
  assume "6 \<le> length eye" "euclidean (eye ! 0) (eye ! 3) = 0"
  then show "calculate_ear eye = Inr 0"
    by (simp add: calculate_ear_six)
next
  assume "20 \<le> length m"
  then show "\<exists>r. calculate_mar m = Inr r"
    by (simp add: calculate_mar_inner)
next
  assume "20 \<le> length m" "euclidean (m ! 12) (m ! 16) = 0"
  then show "calculate_mar m = Inr 0"
    by (simp add: calculate_mar_inner)
next
  assume "11 \<le> length m \<and> length m < 20"
  then show "\<exists>r. calculate_mar m = Inr r"
    by (simp add: calculate_mar_outer)
next
  assume "11 \<le> length m \<and> length m < 20" "euclidean (m ! 0) (m ! 6) = 0"
  then show "calculate_mar m = Inr 0"
    by (simp add: calculate_mar_outer)
qed

theorem ratios_zero_on_zero_span_witness:
  "calculate_ear zero_width_eye = Inr 0
   \<and> calculate_mar (replicate 20 (0, 0)) = Inr 0
   \<and> calculate_mar (replicate 12 (0, 0)) = Inr 0"
  using ratios_zero_on_zero_span [of zero_width_eye "replicate 20 (0, 0)"]
    ratios_zero_on_zero_span [of zero_width_eye "replicate 12 (0, 0)"]
  by (simp add: zero_width_eye_def)

section \<open>Yawn detector: debouncing and the fatigue window\<close>

lemma last_deque_append: "0 < n \<Longrightarrow> last (deque_append n d x) = x"
  by (cases d) (auto simp: deque_append_def Let_def last_tl)

lemma open_mouthE:
  assumes "open_mouth thr f"
  obtains v where "calculate_mar f = Inr v" "thr < v"
  using assms by (auto simp: open_mouth_def split: sum.splits)

lemma shut_mouthE:
  assumes "shut_mouth thr f"
  obtains v where "calculate_mar f = Inr v" "\<not> thr < v"
  using assms by (auto simp: shut_mouth_def split: sum.splits)

lemma process_mouth_open:
  assumes "open_mouth (mar_threshold s) f"
  shows "\<exists>m. process_mouth f s =
            Inr (m, s\<lparr>frame_number := frame_number s + 1,
                      mar_history := deque_append (history_size_yd s) (mar_history s) (mar m),
                      yawn_frame_count := yawn_frame_count s + 1,
                      is_yawning := (min_yawn_frames s \<le> int (yawn_frame_count s + 1))\<rparr>)"
proof -
  from assms obtain v where "calculate_mar f = Inr v" "mar_threshold s < v"
    by (rule open_mouthE)
  then show ?thesis
    by (simp add: process_mouth_def Let_def)
qed

lemma process_mouth_shut:
  assumes "shut_mouth (mar_threshold s) f"
  shows "\<exists>m. process_mouth f s =
            Inr (m, s\<lparr>frame_number := frame_number s + 1,
                      mar_history := deque_append (history_size_yd s) (mar_history s) (mar m),
                      total_yawns :=
                        (if is_yawning s \<and> min_yawn_frames s \<le> int (yawn_frame_count s)
                         then total_yawns s + 1 else total_yawns s),
                      recent_yawns :=
                        (if is_yawning s \<and> min_yawn_frames s \<le> int (yawn_frame_count s)
                         then deque_append 100 (recent_yawns s) (frame_number s + 1)
                         else recent_yawns s),
                      yawn_frame_count := 0, is_yawning := False\<rparr>)"
proof -
  from assms obtain v where "calculate_mar f = Inr v" "\<not> mar_threshold s < v"
    by (rule shut_mouthE)
  then show ?thesis
    by (simp add: process_mouth_def Let_def)
qed

lemma feed_mouth_open:
  assumes "\<forall>f\<in>set fs. open_mouth (mar_threshold s) f"
  shows "\<exists>s'. feed_mouth fs s = Inr s'
           \<and> yawn_frame_count s' = yawn_frame_count s + length fs
           \<and> frame_number s' = frame_number s + length fs
           \<and> total_yawns s' = total_yawns s
           \<and> recent_yawns s' = recent_yawns s
           \<and> mar_threshold s' = mar_threshold s
           \<and> min_yawn_frames s' = min_yawn_frames s
           \<and> consecutive_yawns_alert s' = consecutive_yawns_alert s
           \<and> (fs \<noteq> [] \<longrightarrow> is_yawning s' = (min_yawn_frames s \<le> int (yawn_frame_count s')))"
  using assms
proof (induction fs arbitrary: s)
  case Nil
  then show ?case by simp
next
  case (Cons f fs)
  from Cons.prems have "open_mouth (mar_threshold s) f" by simp
  from process_mouth_open [OF this] obtain m s1 where
    step: "process_mouth f s = Inr (m, s1)"
    and s1: "s1 = s\<lparr>frame_number := frame_number s + 1,
                    mar_history := deque_append (history_size_yd s) (mar_history s) (mar m),
                    yawn_frame_count := yawn_frame_count s + 1,
                    is_yawning := (min_yawn_frames s \<le> int (yawn_frame_count s + 1))\<rparr>"
    by blast
  from Cons.prems s1 have "\<forall>g\<in>set fs. open_mouth (mar_threshold s1) g" by simp
  from Cons.IH [OF this] obtain s' where
    rest: "feed_mouth fs s1 = Inr s'"
      "yawn_frame_count s' = yawn_frame_count s1 + length fs"
      "frame_number s' = frame_number s1 + length fs"
      "total_yawns s' = total_yawns s1" "recent_yawns s' = recent_yawns s1"
      "mar_threshold s' = mar_threshold s1" "min_yawn_frames s' = min_yawn_frames s1"
      "consecutive_yawns_alert s' = consecutive_yawns_alert s1"
      "fs \<noteq> [] \<longrightarrow> is_yawning s' = (min_yawn_frames s1 \<le> int (yawn_frame_count s'))"
    by blast
  have "fs = [] \<Longrightarrow> s' = s1" using rest(1) by simp
  with step rest s1 show ?case
    by (cases "fs = []") auto
qed

lemma feed_mouth_shut:
  assumes "\<forall>f\<in>set fs. shut_mouth (mar_threshold s) f" "\<not> is_yawning s"
  shows "\<exists>s'. feed_mouth fs s = Inr s'
           \<and> frame_number s' = frame_number s + length fs
           \<and> total_yawns s' = total_yawns s
           \<and> recent_yawns s' = recent_yawns s
           \<and> consecutive_yawns_alert s' = consecutive_yawns_alert s
           \<and> \<not> is_yawning s'"
  using assms
proof (induction fs arbitrary: s)
  case Nil
  then show ?case by simp
next
  case (Cons f fs)
  from Cons.prems have "shut_mouth (mar_threshold s) f" by simp
  from process_mouth_shut [OF this] Cons.prems(2) obtain m s1 where
    step: "process_mouth f s = Inr (m, s1)"
    and s1: "frame_number s1 = frame_number s + 1" "total_yawns s1 = total_yawns s"
      "recent_yawns s1 = recent_yawns s" "mar_threshold s1 = mar_threshold s"
      "consecutive_yawns_alert s1 = consecutive_yawns_alert s" "\<not> is_yawning s1"
    by auto
  from Cons.prems s1 have "\<forall>g\<in>set fs. shut_mouth (mar_threshold s1) g" by simp
  from Cons.IH [OF this s1(6)] obtain s' where
    "feed_mouth fs s1 = Inr s'" "frame_number s' = frame_number s1 + length fs"
    "total_yawns s' = total_yawns s1" "recent_yawns s' = recent_yawns s1"
    "consecutive_yawns_alert s' = consecutive_yawns_alert s1" "\<not> is_yawning s'"
    by blast
  with step s1 show ?case by auto
qed


lemma feed_mouth_append:
  "feed_mouth (xs @ ys) s = bind_res (feed_mouth xs s) (feed_mouth ys)"
  by (induction xs arbitrary: s) (auto simp: bind_res_def split: sum.splits)

lemma mar_shut: "calculate_mar mouth_shut_pts = Inr (1 / 15)"
  by (simp add: calculate_mar_inner mouth_shut_pts_def nth_append)

lemma mar_open: "calculate_mar mouth_open_pts = Inr 1"
  by (simp add: calculate_mar_inner mouth_open_pts_def nth_append)

lemma mouth_open_pts_open: "open_mouth (1 / 2) mouth_open_pts"
  by (simp add: open_mouth_def mar_open)

lemma mouth_shut_pts_shut: "shut_mouth (1 / 2) mouth_shut_pts"
  by (simp add: shut_mouth_def mar_shut)

text \<open>
  Claim C5. From every detector state, take a run of one or more frames with MAR above
  \<open>mar_threshold\<close>, and let \<open>k\<close> be the length of the open-mouth episode counted from its first
  frame: the frames already counted in \<open>yawn_frame_count\<close> plus the frames of the run (just the
  run when it starts the episode, \<open>yawn_frame_count = 0\<close>). The run followed by a closed frame
  is processed without an exception; \<open>total_yawns\<close> and the recent-event window are unchanged
  during the run; the closed frame resets \<open>yawn_frame_count\<close> to 0. If \<open>k < min_yawn_frames\<close>,
  \<open>total_yawns\<close> and the window are still unchanged after the closed frame. If
  \<open>k \<ge> min_yawn_frames\<close>, \<open>total_yawns\<close> is exactly one higher and the frame number of the closed
  frame has been appended to the window (of capacity 100), where it is the last entry.
\<close>

theorem yawn_counted_after_min_frames:
  assumes nonempty: "fs \<noteq> []"
    and opened: "\<forall>f\<in>set fs. open_mouth (mar_threshold s) f"
    and closing: "shut_mouth (mar_threshold s) g"
  shows "\<exists>s1 m s2. feed_mouth fs s = Inr s1
           \<and> process_mouth g s1 = Inr (m, s2)
           \<and> total_yawns s1 = total_yawns s
           \<and> recent_yawns s1 = recent_yawns s
           \<and> yawn_frame_count s2 = 0
           \<and> frame_number s2 = frame_number s + length fs + 1
           \<and> (int (yawn_frame_count s + length fs) < min_yawn_frames s \<longrightarrow>
                total_yawns s2 = total_yawns s \<and> recent_yawns s2 = recent_yawns s)
           \<and> (min_yawn_frames s \<le> int (yawn_frame_count s + length fs) \<longrightarrow>
                total_yawns s2 = total_yawns s + 1
                \<and> recent_yawns s2 = deque_append 100 (recent_yawns s) (frame_number s2)
                \<and> last (recent_yawns s2) = frame_number s2)"
proof -
  from feed_mouth_open [OF opened] nonempty obtain s1 where
    s1: "feed_mouth fs s = Inr s1" "yawn_frame_count s1 = yawn_frame_count s + length fs"
      "frame_number s1 = frame_number s + length fs"
      "total_yawns s1 = total_yawns s" "recent_yawns s1 = recent_yawns s"
      "mar_threshold s1 = mar_threshold s" "min_yawn_frames s1 = min_yawn_frames s"
      "is_yawning s1 = (min_yawn_frames s \<le> int (yawn_frame_count s + length fs))"
    by auto
  from closing s1 have "shut_mouth (mar_threshold s1) g" by simp
  from process_mouth_shut [OF this] obtain m s2 where
    s2: "process_mouth g s1 = Inr (m, s2)"
      "yawn_frame_count s2 = 0" "frame_number s2 = frame_number s1 + 1"
      "total_yawns s2 =
         (if is_yawning s1 \<and> min_yawn_frames s1 \<le> int (yawn_frame_count s1)
          then total_yawns s1 + 1 else total_yawns s1)"
      "recent_yawns s2 =
         (if is_yawning s1 \<and> min_yawn_frames s1 \<le> int (yawn_frame_count s1)
          then deque_append 100 (recent_yawns s1) (frame_number s1 + 1)
          else recent_yawns s1)"
    by auto
  have number: "frame_number s2 = frame_number s + length fs + 1"
    using s1 s2 by simp
  have brief: "total_yawns s2 = total_yawns s \<and> recent_yawns s2 = recent_yawns s"
    if "int (yawn_frame_count s + length fs) < min_yawn_frames s"
    using that s1 s2 by simp
  have full: "total_yawns s2 = total_yawns s + 1
      \<and> recent_yawns s2 = deque_append 100 (recent_yawns s) (frame_number s2)
      \<and> last (recent_yawns s2) = frame_number s2"
    if "min_yawn_frames s \<le> int (yawn_frame_count s + length fs)"
    using that s1 s2 by (simp add: last_deque_append)
  from s1(1,4,5) s2(1,2) number brief full show ?thesis by blast
qed

theorem yawn_counted_after_min_frames_witness:
  "\<exists>s1 m s2. feed_mouth [mouth_open_pts, mouth_open_pts, mouth_open_pts, mouth_open_pts]
                (YawnDetector (1 / 2) 3 30 3) = Inr s1
     \<and> process_mouth mouth_shut_pts s1 = Inr (m, s2)
     \<and> total_yawns s1 = 0 \<and> total_yawns s2 = 1 \<and> recent_yawns s2 = [5]
     \<and> yawn_frame_count s2 = 0 \<and> frame_number s2 = 5"
  using yawn_counted_after_min_frames
    [where s = "YawnDetector (1 / 2) 3 30 3"
       and fs = "[mouth_open_pts, mouth_open_pts, mouth_open_pts, mouth_open_pts]"
       and g = mouth_shut_pts]
    mouth_open_pts_open mouth_shut_pts_shut
  by (fastforce simp: YawnDetector_def deque_append_def)

lemma recent_count_eq:
  "(\<Sum>frame \<leftarrow> filter P xs. (1::int)) = int (length (filter P xs))"
  by (simp add: sum_list_triv)

text \<open>
  Claim C6, as amended. \<open>is_fatigue_indicated\<close> is true exactly when the number of recorded
  yawn events whose frame index is above \<open>frame_number - 90\<close> (the trailing 90-frame window)
  is at least \<open>consecutive_yawns_alert\<close>. When \<open>consecutive_yawns_alert\<close> is at least 1 it is
  false in every state whose recorded yawns all lie outside the window; in particular it is
  false again after 90 or more frames with the mouth shut, fed to a detector that is not in
  a yawn and whose recorded yawns are not later than its current frame.
\<close>

theorem fatigue_window:
  "is_fatigue_indicated s =
     (consecutive_yawns_alert s
        \<le> int (length (filter (\<lambda>f. int (frame_number s) - 90 < int f) (recent_yawns s))))
   \<and> (0 < consecutive_yawns_alert s
        \<and> (\<forall>f\<in>set (recent_yawns s). 90 \<le> int (frame_number s) - int f)
      \<longrightarrow> \<not> is_fatigue_indicated s)
   \<and> (0 < consecutive_yawns_alert s
        \<and> (\<forall>f\<in>set (recent_yawns s). f \<le> frame_number s)
        \<and> \<not> is_yawning s
        \<and> (\<forall>g\<in>set gs. shut_mouth (mar_threshold s) g) \<and> 90 \<le> length gs
      \<longrightarrow> (\<exists>s'. feed_mouth gs s = Inr s' \<and> \<not> is_fatigue_indicated s'))"
proof (intro conjI impI)
  have "(\<lambda>f. int (frame_number s) - int f < 90) = (\<lambda>f. int (frame_number s) - 90 < int f)"
    by auto
  then show "is_fatigue_indicated s =
     (consecutive_yawns_alert s
        \<le> int (length (filter (\<lambda>f. int (frame_number s) - 90 < int f) (recent_yawns s))))"
    by (simp add: is_fatigue_indicated_def recent_count_eq)
next
  assume "0 < consecutive_yawns_alert s
            \<and> (\<forall>f\<in>set (recent_yawns s). 90 \<le> int (frame_number s) - int f)"
  then have "0 < consecutive_yawns_alert s"
    and "filter (\<lambda>f. int (frame_number s) - int f < 90) (recent_yawns s) = []"
    by (auto simp: filter_empty_conv)
  then show "\<not> is_fatigue_indicated s"
    by (simp add: is_fatigue_indicated_def)
next
  assume asm: "0 < consecutive_yawns_alert s
        \<and> (\<forall>f\<in>set (recent_yawns s). f \<le> frame_number s)
        \<and> \<not> is_yawning s
        \<and> (\<forall>g\<in>set gs. shut_mouth (mar_threshold s) g) \<and> 90 \<le> length gs"
  then have shut: "\<forall>g\<in>set gs. shut_mouth (mar_threshold s) g" and calm: "\<not> is_yawning s"
    by simp_all
  from feed_mouth_shut [OF shut calm] obtain s' where
    s': "feed_mouth gs s = Inr s'" "frame_number s' = frame_number s + length gs"
      "recent_yawns s' = recent_yawns s"
      "consecutive_yawns_alert s' = consecutive_yawns_alert s"
    by blast
  from asm s' have "filter (\<lambda>f. int (frame_number s') - int f < 90) (recent_yawns s') = []"
    by (fastforce simp: filter_empty_conv)
  with asm s' have "\<not> is_fatigue_indicated s'"
    by (simp add: is_fatigue_indicated_def)
  with s'(1) show "\<exists>s'. feed_mouth gs s = Inr s' \<and> \<not> is_fatigue_indicated s'"
    by blast
qed

theorem fatigue_window_witness:
  "is_fatigue_indicated
     ((YawnDetector (3 / 4) 15 30 3)\<lparr>recent_yawns := [20, 50, 80], frame_number := 100\<rparr>)
   \<and> \<not> is_fatigue_indicated
     ((YawnDetector (3 / 4) 15 30 3)\<lparr>recent_yawns := [20, 50, 80], frame_number := 170\<rparr>)
   \<and> (\<exists>s'. feed_mouth (replicate 90 mouth_shut_pts)
              ((YawnDetector (1 / 2) 15 30 3)\<lparr>recent_yawns := [20, 50, 80], frame_number := 100\<rparr>)
            = Inr s'
          \<and> \<not> is_fatigue_indicated s')"
  using fatigue_window
    [of "(YawnDetector (3 / 4) 15 30 3)\<lparr>recent_yawns := [20, 50, 80], frame_number := 100\<rparr>" "[]"]
    fatigue_window
    [of "(YawnDetector (3 / 4) 15 30 3)\<lparr>recent_yawns := [20, 50, 80], frame_number := 170\<rparr>" "[]"]
    fatigue_window
    [of "(YawnDetector (1 / 2) 15 30 3)\<lparr>recent_yawns := [20, 50, 80], frame_number := 100\<rparr>"
        "replicate 90 mouth_shut_pts"]
    mouth_shut_pts_shut
  by (simp add: YawnDetector_def)

text \<open>
  Claim C6 as stated, for every detector state, fails for a detector built with
  \<open>consecutive_yawns_alert = 0\<close>: after one yawn of four frames, recorded at frame 5, and 90
  further frames with the mouth shut, the only recorded yawn is 90 frames old and outside
  the window, and \<open>is_fatigue_indicated\<close> is still true, since the count 0 reaches the
  threshold 0.
\<close>

theorem zero_yawn_threshold_always_fatigued:
  "map_sum id (\<lambda>s. (total_yawns s, recent_yawns s, frame_number s, is_fatigue_indicated s))
     (feed_mouth (replicate 4 mouth_open_pts @ replicate 91 mouth_shut_pts)
        (YawnDetector (1 / 2) 3 30 0))
   = Inr (1, [5], 95, True)"
proof -
  have "\<forall>f\<in>set (replicate 4 mouth_open_pts).
          open_mouth (mar_threshold (YawnDetector (1 / 2) 3 30 0)) f"
    by (simp add: YawnDetector_def mouth_open_pts_open)
  from feed_mouth_open [OF this] obtain s1 where
    s1: "feed_mouth (replicate 4 mouth_open_pts) (YawnDetector (1 / 2) 3 30 0) = Inr s1"
      "yawn_frame_count s1 = 4" "frame_number s1 = 4" "total_yawns s1 = 0"
      "recent_yawns s1 = []" "mar_threshold s1 = 1 / 2" "min_yawn_frames s1 = 3"
      "consecutive_yawns_alert s1 = 0" "is_yawning s1"
    by (auto simp: YawnDetector_def)
  have "shut_mouth (mar_threshold s1) mouth_shut_pts"
    by (simp only: s1(6) mouth_shut_pts_shut)
  from process_mouth_shut [OF this] obtain m s2 where
    s2: "process_mouth mouth_shut_pts s1 = Inr (m, s2)" "frame_number s2 = 5"
      "total_yawns s2 = 1" "recent_yawns s2 = [5]" "mar_threshold s2 = 1 / 2"
      "consecutive_yawns_alert s2 = 0" "\<not> is_yawning s2"
    using s1 by (auto simp: deque_append_def)
  have "\<forall>g\<in>set (replicate 90 mouth_shut_pts). shut_mouth (mar_threshold s2) g"
    unfolding s2(5) using mouth_shut_pts_shut by (metis in_set_replicate)
  from feed_mouth_shut [OF this s2(7)] obtain s3 where
    s3: "feed_mouth (replicate 90 mouth_shut_pts) s2 = Inr s3" "frame_number s3 = 95"
      "total_yawns s3 = 1" "recent_yawns s3 = [5]" "consecutive_yawns_alert s3 = 0"
    using s2 by auto
  have "replicate 91 mouth_shut_pts = mouth_shut_pts # replicate 90 mouth_shut_pts"
    by (simp add: eval_nat_numeral)
  then have "feed_mouth (replicate 4 mouth_open_pts @ replicate 91 mouth_shut_pts)
               (YawnDetector (1 / 2) 3 30 0) = Inr s3"
    using s1(1) s2(1) s3(1) by (simp add: feed_mouth_append)
  moreover have "is_fatigue_indicated s3"
    using s3 by (simp add: is_fatigue_indicated_def)
  ultimately show ?thesis
    using s3 by simp
qed

section \<open>Alert dispatcher: cooldown gate\<close>

lemma trigger_alert_refused:
  "is_alerting s \<or> now - last_alert_time s < cooldown_seconds s
   \<Longrightarrow> trigger_alert now kind s = (False, s)"
  by (auto simp: trigger_alert_def)

lemma trigger_alert_accepted:
  "\<not> is_alerting s \<Longrightarrow> \<not> now - last_alert_time s < cooldown_seconds s
   \<Longrightarrow> trigger_alert now kind s =
        (True,
         if sound_enabled s
         then s\<lparr>is_alerting := True, last_alert_time := now, alert_count := alert_count s + 1,
                stop_event := False, alert_thread := True,
                threads_started := threads_started s + 1\<rparr>
         else s\<lparr>is_alerting := True, last_alert_time := now, alert_count := alert_count s + 1\<rparr>)"
  by (simp add: trigger_alert_def Let_def)

lemma trigger_alert_True:
  "fst (trigger_alert t kind s)
   \<Longrightarrow> last_alert_time (snd (trigger_alert t kind s)) = t
       \<and> cooldown_seconds (snd (trigger_alert t kind s)) = cooldown_seconds s"
  by (auto simp: trigger_alert_def Let_def split: if_splits)

lemma stop_alert_keeps:
  "last_alert_time (stop_alert s) = last_alert_time s
   \<and> cooldown_seconds (stop_alert s) = cooldown_seconds s
   \<and> alert_count (stop_alert s) = alert_count s"
  by (simp add: stop_alert_def)

text \<open>
  Claim C2, as amended. \<open>trigger_alert\<close> returns false and changes nothing when the dispatcher
  is alerting or when the time elapsed since \<open>last_alert_time\<close>, the time of the last accepted
  trigger, is below the cooldown. Otherwise it returns true, sets \<open>is_alerting\<close>, records the
  current time, increments \<open>alert_count\<close> and, when sound is enabled, clears the stop flag and
  starts the playback thread. Of two trigger calls less than \<open>cooldown_seconds\<close> apart, the
  first of which was accepted, the second returns false and changes nothing, whether or not
  the alert was stopped in between.
\<close>

theorem trigger_alert_gate:
  "(is_alerting s \<or> now - last_alert_time s < cooldown_seconds s
      \<longrightarrow> trigger_alert now kind s = (False, s))
   \<and> (\<not> is_alerting s \<and> \<not> now - last_alert_time s < cooldown_seconds s
      \<longrightarrow> trigger_alert now kind s =
            (True,
             if sound_enabled s
             then s\<lparr>is_alerting := True, last_alert_time := now,
                    alert_count := alert_count s + 1, stop_event := False,
                    alert_thread := True, threads_started := threads_started s + 1\<rparr>
             else s\<lparr>is_alerting := True, last_alert_time := now,
                    alert_count := alert_count s + 1\<rparr>))
   \<and> (fst (trigger_alert t1 kind s) \<and> t2 - t1 < cooldown_seconds s
      \<longrightarrow> trigger_alert t2 kind' (snd (trigger_alert t1 kind s))
            = (False, snd (trigger_alert t1 kind s))
          \<and> trigger_alert t2 kind' (stop_alert (snd (trigger_alert t1 kind s)))
            = (False, stop_alert (snd (trigger_alert t1 kind s))))"
proof (intro conjI impI)
  assume "is_alerting s \<or> now - last_alert_time s < cooldown_seconds s"
  then show "trigger_alert now kind s = (False, s)"
    by (rule trigger_alert_refused)
next
  assume "\<not> is_alerting s \<and> \<not> now - last_alert_time s < cooldown_seconds s"
  then show "trigger_alert now kind s =
            (True,
             if sound_enabled s
             then s\<lparr>is_alerting := True, last_alert_time := now,
                    alert_count := alert_count s + 1, stop_event := False,
                    alert_thread := True, threads_started := threads_started s + 1\<rparr>
             else s\<lparr>is_alerting := True, last_alert_time := now,
                    alert_count := alert_count s + 1\<rparr>)"
    by (simp add: trigger_alert_accepted)
next
  assume asm: "fst (trigger_alert t1 kind s) \<and> t2 - t1 < cooldown_seconds s"
  with trigger_alert_True [of t1 kind s]
  have "t2 - last_alert_time (snd (trigger_alert t1 kind s))
          < cooldown_seconds (snd (trigger_alert t1 kind s))"
    by simp
  then show "trigger_alert t2 kind' (snd (trigger_alert t1 kind s))
               = (False, snd (trigger_alert t1 kind s))"
    by (simp add: trigger_alert_refused)
  from asm trigger_alert_True [of t1 kind s]
  have "t2 - last_alert_time (stop_alert (snd (trigger_alert t1 kind s)))
          < cooldown_seconds (stop_alert (snd (trigger_alert t1 kind s)))"
    by (simp add: stop_alert_keeps)
  then show "trigger_alert t2 kind' (stop_alert (snd (trigger_alert t1 kind s)))
               = (False, stop_alert (snd (trigger_alert t1 kind s)))"
    by (simp add: trigger_alert_refused)
qed

theorem trigger_alert_gate_witness:
  "trigger_alert 1 ''drowsiness'' (AlertSystem True True 3 False)
     = (False, AlertSystem True True 3 False)
   \<and> trigger_alert 10 ''drowsiness'' (AlertSystem True True 3 False)
     = (True, (AlertSystem True True 3 False)
                \<lparr>is_alerting := True, last_alert_time := 10, alert_count := 1,
                 stop_event := False, alert_thread := True, threads_started := 1\<rparr>)
   \<and> trigger_alert 12 ''fatigue'' (snd (trigger_alert 10 ''drowsiness'' (AlertSystem True True 3 False)))
     = (False, snd (trigger_alert 10 ''drowsiness'' (AlertSystem True True 3 False)))"
  using trigger_alert_gate
      [of "AlertSystem True True 3 False" 1 "''drowsiness''" 10 12 "''fatigue''"]
    trigger_alert_gate
      [of "AlertSystem True True 3 False" 10 "''drowsiness''" 10 12 "''fatigue''"]
  by (simp add: AlertSystem_def)

text \<open>
  Claim C2 as stated measures the cooldown from the end of the last alert and refuses every
  second call of two that are close together. With a cooldown of 3 seconds: an alert is
  triggered at time 10 and stopped at time 12, so the last alert ended at 12; a trigger at
  12.5 is refused. A trigger at 13, one second after the alert ended and half a second after
  the previous trigger call, finds the dispatcher idle, is accepted, and raises
  \<open>alert_count\<close> from 1 to 2, because 13 - 10 is not below the cooldown.
\<close>

theorem trigger_accepted_soon_after_alert_end:
  "alert_ends [Trigger 10, Stop 12, Trigger (25 / 2)] (AlertSystem True True 3 False) = [12]
   \<and> \<not> is_alerting (run_calls [Trigger 10, Stop 12, Trigger (25 / 2)]
                        (AlertSystem True True 3 False))
   \<and> alert_count (run_calls [Trigger 10, Stop 12, Trigger (25 / 2)]
                    (AlertSystem True True 3 False)) = 1
   \<and> 13 - 12 < cooldown_seconds (run_calls [Trigger 10, Stop 12, Trigger (25 / 2)]
                                   (AlertSystem True True 3 False))
   \<and> fst (trigger_alert 13 ''drowsiness''
            (run_calls [Trigger 10, Stop 12, Trigger (25 / 2)] (AlertSystem True True 3 False)))
   \<and> alert_count (snd (trigger_alert 13 ''drowsiness''
            (run_calls [Trigger 10, Stop 12, Trigger (25 / 2)] (AlertSystem True True 3 False))))
       = 2"
  by (simp add: AlertSystem_def trigger_alert_def stop_alert_def Let_def)

section \<open>Orchestrator: fusion and the frame without a face\<close>

lemma bind_res_eq_Inr: "bind_res r f = Inr b \<longleftrightarrow> (\<exists>a. r = Inr a \<and> f a = Inr b)"
  by (cases r) simp_all

lemma take_rows_in_range:
  "\<forall>i\<in>set idx. i < length arr \<Longrightarrow> take_rows arr idx = Inr (map ((!) arr) idx)"
  by (induction idx) (simp_all add: getitem_def)

lemma get_eye_landmarks_68:
  assumes "length lm = 68"
  shows "\<exists>l r. get_eye_landmarks lm = Inr (l, r) \<and> length l = 6 \<and> length r = 6"
proof -
  have l: "take_rows lm [42 ..< 48] = Inr (map ((!) lm) [42 ..< 48])"
    by (rule take_rows_in_range) (use assms in auto)
  have r: "take_rows lm [36 ..< 42] = Inr (map ((!) lm) [36 ..< 42])"
    by (rule take_rows_in_range) (use assms in auto)
  show ?thesis
    unfolding get_eye_landmarks_def l r by simp
qed

lemma get_mouth_landmarks_68:
  assumes "length lm = 68"
  shows "\<exists>m. get_mouth_landmarks lm = Inr m \<and> length m = 20"
proof -
  have outer: "take_rows lm [48 ..< 60] = Inr (map ((!) lm) [48 ..< 60])"
    by (rule take_rows_in_range) (use assms in auto)
  have inner: "take_rows lm [60 ..< 68] = Inr (map ((!) lm) [60 ..< 68])"
    by (rule take_rows_in_range) (use assms in auto)
  show ?thesis
    unfolding get_mouth_landmarks_def outer inner by simp
qed

lemma extract_pose_points_68:
  assumes "length lm = 68"
  shows "\<exists>ps. extract_pose_points lm = Inr ps"
proof -
  have "take_rows lm [30, 8, 36, 45, 48, 54] = Inr (map ((!) lm) [30, 8, 36, 45, 48, 54])"
    by (rule take_rows_in_range) (use assms in auto)
  then show ?thesis
    unfolding extract_pose_points_def by simp
qed

lemma process_eyes_total:
  assumes "length l = 6" "length r = 6"
  shows "\<exists>m s'. process_eyes l r s = Inr (m, s')
           \<and> drowsy_frames_threshold s' = drowsy_frames_threshold s"
  using assms by (simp add: process_eyes_def calculate_ear_six Let_def)

lemma process_mouth_total:
  assumes "length m = 20"
  shows "\<exists>ym s'. process_mouth m s = Inr (ym, s')"
  using assms by (simp add: process_mouth_def calculate_mar_inner Let_def)

lemma estimate_pose_total:
  assumes "length lm = 68"
  shows "\<exists>hm s'. estimate_pose lm shape solved s = Inr (hm, s')"
proof -
  from extract_pose_points_68 [OF assms] obtain ps where "extract_pose_points lm = Inr ps"
    by blast
  then show ?thesis
    by (cases solved) (simp_all add: estimate_pose_def Let_def split: prod.splits)
qed

lemma get_drowsiness_score_total:
  assumes "drowsy_frames_threshold s \<noteq> 0"
  shows "\<exists>v. get_drowsiness_score s = Inr v"
  using assms by (simp add: get_drowsiness_score_def truediv_def Let_def)

lemma process_frame_total:
  assumes "found_landmarks frame = Some lm" "length lm = 68"
    "drowsy_frames_threshold (eye_tracker d) \<noteq> 0"
  shows "\<exists>res d'. process_frame frame d = Inr (res, d')"
proof -
  from get_eye_landmarks_68 [OF assms(2)] obtain l r where
    eyes: "get_eye_landmarks lm = Inr (l, r)" "length l = 6" "length r = 6"
    by blast
  from process_eyes_total [OF eyes(2,3)] obtain em et where
    pe: "process_eyes l r (eye_tracker d) = Inr (em, et)"
      "drowsy_frames_threshold et = drowsy_frames_threshold (eye_tracker d)"
    by blast
  from get_mouth_landmarks_68 [OF assms(2)] obtain m where
    mouth: "get_mouth_landmarks lm = Inr m" "length m = 20"
    by blast
  from process_mouth_total [OF mouth(2)] obtain ym yd where
    pm: "process_mouth m (yawn_detector d) = Inr (ym, yd)"
    by blast
  from estimate_pose_total [OF assms(2)] obtain hm hp where
    ep: "estimate_pose lm (frame_shape frame) (solved_pose frame) (head_pose d) = Inr (hm, hp)"
    by blast
  from pe(2) assms(3) have "drowsy_frames_threshold et \<noteq> 0" by simp
  from get_drowsiness_score_total [OF this] obtain v where
    sc: "get_drowsiness_score et = Inr v"
    by blast
  from assms(1) eyes(1) pe(1) mouth(1) pm ep sc show ?thesis
    by (simp add: process_frame_def Let_def)
qed


lemma process_frame_landmarks:
  assumes "found_landmarks frame = Some lm" "process_frame frame d = Inr (res, d')"
  obtains l r em et m ym yd hm hp e a where
    "get_eye_landmarks lm = Inr (l, r)"
    "process_eyes l r (eye_tracker d) = Inr (em, et)"
    "get_mouth_landmarks lm = Inr m"
    "process_mouth m (yawn_detector d) = Inr (ym, yd)"
    "estimate_pose lm (frame_shape frame) (solved_pose frame) (head_pose d) = Inr (hm, hp)"
    "get_drowsiness_score et = Inr e"
    "res = DetectionResult
       \<lparr>face_detected := True, landmarks_dr := Some lm,
        ear := avg_ear em, left_ear_dr := left_ear em, right_ear_dr := right_ear em,
        eyes_closed := is_closed em, blink_count_dr := blink_count et,
        mar_dr := mar ym, is_yawning_dr := is_yawning_ym ym, yawn_count := total_yawns_ym ym,
        pitch_dr := pitch hm, yaw_dr := yaw hm, roll_dr := roll hm,
        head_down := is_head_down hm, head_tilted := is_head_tilted hm,
        drowsiness_score :=
          min (e + (if is_fatigue_indicated yd then 30 else 0)
                 + (if is_head_down hm then 20 else 0)) 100,
        is_drowsy_dr := (is_drowsy et \<or> is_head_down hm),
        is_fatigued := is_fatigue_indicated yd,
        processing_time_ms := (time_end frame - time_start frame) * 1000\<rparr>"
    "d' = d\<lparr>frame_count := frame_count d + 1, eye_tracker := et, yawn_detector := yd,
             head_pose := hp, alert_system := a\<rparr>"
    "a = (if is_drowsy et \<or> is_head_down hm
          then snd (trigger_alert (time_alert frame) ''drowsiness'' (alert_system d))
          else if is_fatigue_indicated yd
          then snd (trigger_alert (time_alert frame) ''fatigue'' (alert_system d))
          else if \<not> is_closed em \<and> \<not> is_yawning_ym ym
          then stop_alert (alert_system d)
          else alert_system d)"
proof -
  from assms obtain l r where eyes: "get_eye_landmarks lm = Inr (l, r)"
    by (cases "get_eye_landmarks lm") (auto simp: process_frame_def Let_def)
  from assms eyes obtain em et where pe: "process_eyes l r (eye_tracker d) = Inr (em, et)"
    by (cases "process_eyes l r (eye_tracker d)") (auto simp: process_frame_def Let_def)
  from assms eyes pe obtain m where mouth: "get_mouth_landmarks lm = Inr m"
    by (cases "get_mouth_landmarks lm") (auto simp: process_frame_def Let_def)
  from assms eyes pe mouth obtain ym yd where
    pm: "process_mouth m (yawn_detector d) = Inr (ym, yd)"
    by (cases "process_mouth m (yawn_detector d)") (auto simp: process_frame_def Let_def)
  from assms eyes pe mouth pm obtain hm hp where
    ep: "estimate_pose lm (frame_shape frame) (solved_pose frame) (head_pose d) = Inr (hm, hp)"
    by (cases "estimate_pose lm (frame_shape frame) (solved_pose frame) (head_pose d)")
       (auto simp: process_frame_def Let_def)
  from assms eyes pe mouth pm ep obtain e where sc: "get_drowsiness_score et = Inr e"
    by (cases "get_drowsiness_score et") (auto simp: process_frame_def Let_def)
  from assms eyes pe mouth pm ep sc have
    "res = DetectionResult
       \<lparr>face_detected := True, landmarks_dr := Some lm,
        ear := avg_ear em, left_ear_dr := left_ear em, right_ear_dr := right_ear em,
        eyes_closed := is_closed em, blink_count_dr := blink_count et,
        mar_dr := mar ym, is_yawning_dr := is_yawning_ym ym, yawn_count := total_yawns_ym ym,
        pitch_dr := pitch hm, yaw_dr := yaw hm, roll_dr := roll hm,
        head_down := is_head_down hm, head_tilted := is_head_tilted hm,
        drowsiness_score :=
          min (e + (if is_fatigue_indicated yd then 30 else 0)
                 + (if is_head_down hm then 20 else 0)) 100,
        is_drowsy_dr := (is_drowsy et \<or> is_head_down hm),
        is_fatigued := is_fatigue_indicated yd,
        processing_time_ms := (time_end frame - time_start frame) * 1000\<rparr>"
    by (simp add: process_frame_def Let_def)
  moreover
  from assms eyes pe mouth pm ep sc have
    "d' = d\<lparr>frame_count := frame_count d + 1, eye_tracker := et, yawn_detector := yd,
             head_pose := hp,
             alert_system :=
               (if is_drowsy et \<or> is_head_down hm
                then snd (trigger_alert (time_alert frame) ''drowsiness'' (alert_system d))
                else if is_fatigue_indicated yd
                then snd (trigger_alert (time_alert frame) ''fatigue'' (alert_system d))
                else if \<not> is_closed em \<and> \<not> is_yawning_ym ym
                then stop_alert (alert_system d)
                else alert_system d)\<rparr>"
    by (auto simp: process_frame_def Let_def)
  ultimately show ?thesis
    using that eyes pe mouth pm ep sc by blast
qed


lemma face_eyes: "get_eye_landmarks face_pts = Inr (eye_shut_pts, eye_shut_pts)"
  by (simp add: get_eye_landmarks_def face_pts_def upt_rec getitem_def nth_append
      eye_shut_pts_def mouth_shut_pts_def)

lemma face_mouth: "get_mouth_landmarks face_pts = Inr mouth_shut_pts"
  by (simp add: get_mouth_landmarks_def face_pts_def upt_rec getitem_def nth_append
      eye_shut_pts_def mouth_shut_pts_def)
     (simp add: eval_nat_numeral)

lemma face_pose:
  "extract_pose_points face_pts = Inr [(0, 0), (0, 0), (0, 10), (20, 10), (0, 0), (0, 0)]"
  by (simp add: extract_pose_points_def face_pts_def getitem_def nth_append
      eye_shut_pts_def mouth_shut_pts_def)

lemma default_detector_parts:
  "eye_tracker (DrowsinessDetector default_config False 0) = EyeTracker (1 / 4) 30 60"
  "yawn_detector (DrowsinessDetector default_config False 0) = YawnDetector (3 / 4) 15 30 3"
  by (simp_all add: DrowsinessDetector_def default_config_def int_of_float_def Let_def)

lemma shut_eyes_step:
  "process_eyes eye_shut_pts eye_shut_pts (EyeTracker (1 / 4) 30 60) =
     Inr (\<lparr>left_ear = 1 / 10, right_ear = 1 / 10, avg_ear = 1 / 10, is_closed = True,
           closure_duration_frames = 1\<rparr>,
          (EyeTracker (1 / 4) 30 60)
            \<lparr>ear_history := [1 / 10], closed_frame_count := 1, is_blinking := True\<rparr>)"
  by (simp add: process_eyes_def ear_shut EyeTracker_def Let_def deque_append_def)

lemma shut_mouth_step:
  "process_mouth mouth_shut_pts (YawnDetector (3 / 4) 15 30 3) =
     Inr (\<lparr>mar = 1 / 15, is_yawning_ym = False, yawn_duration_frames = 0, total_yawns_ym = 0\<rparr>,
          (YawnDetector (3 / 4) 15 30 3)\<lparr>mar_history := [1 / 15], frame_number := 1\<rparr>)"
  by (simp add: process_mouth_def mar_shut YawnDetector_def Let_def deque_append_def)

lemma failed_solve_head_up:
  "estimate_pose lm shape None s = Inr (hm, hp) \<Longrightarrow> \<not> is_head_down hm"
  by (auto simp: estimate_pose_def Let_def bind_res_eq_Inr)

lemma face_frame_run:
  "\<exists>res d'. process_frame face_frame (DrowsinessDetector default_config False 0) = Inr (res, d')
     \<and> get_drowsiness_score (eye_tracker d') = Inr (305 / 6)
     \<and> \<not> is_drowsy (eye_tracker d')
     \<and> \<not> is_fatigue_indicated (yawn_detector d')
     \<and> \<not> head_down res"
proof -
  have found: "found_landmarks face_frame = Some face_pts"
    by (simp add: face_frame_def)
  have len: "length face_pts = 68"
    by (simp add: face_pts_def eye_shut_pts_def mouth_shut_pts_def)
  have thr: "drowsy_frames_threshold (eye_tracker (DrowsinessDetector default_config False 0)) \<noteq> 0"
    by (simp add: default_detector_parts EyeTracker_def)
  from process_frame_total [OF found len thr] obtain res d' where
    run: "process_frame face_frame (DrowsinessDetector default_config False 0) = Inr (res, d')"
    by blast
  from found run obtain l r em et m ym yd hm hp where
    steps: "get_eye_landmarks face_pts = Inr (l, r)"
      "process_eyes l r (eye_tracker (DrowsinessDetector default_config False 0)) = Inr (em, et)"
      "get_mouth_landmarks face_pts = Inr m"
      "process_mouth m (yawn_detector (DrowsinessDetector default_config False 0)) = Inr (ym, yd)"
      "estimate_pose face_pts (frame_shape face_frame) (solved_pose face_frame)
         (head_pose (DrowsinessDetector default_config False 0)) = Inr (hm, hp)"
    and res: "head_down res = is_head_down hm"
    and d': "eye_tracker d' = et" "yawn_detector d' = yd"
    by (rule process_frame_landmarks) simp
  from steps(1) have "l = eye_shut_pts" "r = eye_shut_pts"
    by (simp_all add: face_eyes)
  with steps(2) have et: "et =
      (EyeTracker (1 / 4) 30 60)
        \<lparr>ear_history := [1 / 10], closed_frame_count := 1, is_blinking := True\<rparr>"
    by (simp add: default_detector_parts shut_eyes_step)
  from steps(3) have "m = mouth_shut_pts"
    by (simp add: face_mouth)
  with steps(4) have yd: "yd =
      (YawnDetector (3 / 4) 15 30 3)\<lparr>mar_history := [1 / 15], frame_number := 1\<rparr>"
    by (simp add: default_detector_parts shut_mouth_step)
  from steps(5) have up: "\<not> is_head_down hm"
    by (simp add: face_frame_def failed_solve_head_up)
  have "get_drowsiness_score et = Inr (305 / 6)"
    by (simp add: et get_drowsiness_score_def truediv_def EyeTracker_def Let_def)
  moreover have "\<not> is_drowsy et"
    by (simp add: et is_drowsy_def EyeTracker_def)
  moreover have "\<not> is_fatigue_indicated yd"
    by (simp add: yd is_fatigue_indicated_def YawnDetector_def)
  ultimately show ?thesis
    using run res d' up by auto
qed

text \<open>
  Claim C1. Whenever \<open>process_frame\<close> completes on a frame in which landmarks were found, the
  result reports a detected face; its \<open>head_down\<close> flag is the head-down flag of this frame's
  pose estimate; its drowsiness score is the minimum of 100 and the sum of the eye tracker's
  drowsiness score, 30 if the yawn detector indicates fatigue, and 20 if the head is down;
  its \<open>is_drowsy\<close> flag is the eye tracker's \<open>is_drowsy\<close> or head down; and its \<open>is_fatigued\<close>
  flag is the yawn detector's \<open>is_fatigue_indicated\<close>, the trackers being read in the state
  the frame leaves them in. Processing does complete for a set of 68 landmarks when the eye
  tracker's \<open>drowsy_frames_threshold\<close> is not 0.
\<close>

theorem fused_score_and_flags:
  assumes "found_landmarks frame = Some lm"
  shows "(\<forall>res d'. process_frame frame d = Inr (res, d') \<longrightarrow>
            face_detected res
            \<and> (\<exists>hm. estimate_pose lm (frame_shape frame) (solved_pose frame) (head_pose d)
                       = Inr (hm, head_pose d')
                   \<and> head_down res = is_head_down hm)
            \<and> (\<exists>e. get_drowsiness_score (eye_tracker d') = Inr e
                  \<and> drowsiness_score res =
                      min (e + (if is_fatigue_indicated (yawn_detector d') then 30 else 0)
                             + (if head_down res then 20 else 0)) 100)
            \<and> is_drowsy_dr res = (is_drowsy (eye_tracker d') \<or> head_down res)
            \<and> is_fatigued res = is_fatigue_indicated (yawn_detector d'))
         \<and> (length lm = 68 \<and> drowsy_frames_threshold (eye_tracker d) \<noteq> 0 \<longrightarrow>
              (\<exists>res d'. process_frame frame d = Inr (res, d')))"
proof (intro conjI allI impI)
  fix res d'
  assume run: "process_frame frame d = Inr (res, d')"
  from assms run obtain l r em et m ym yd hm hp e a where
    steps: "get_eye_landmarks lm = Inr (l, r)"
      "process_eyes l r (eye_tracker d) = Inr (em, et)"
      "get_mouth_landmarks lm = Inr m"
      "process_mouth m (yawn_detector d) = Inr (ym, yd)"
    and parts: "estimate_pose lm (frame_shape frame) (solved_pose frame) (head_pose d) = Inr (hm, hp)"
      "get_drowsiness_score et = Inr e"
    and res: "res = DetectionResult
       \<lparr>face_detected := True, landmarks_dr := Some lm,
        ear := avg_ear em, left_ear_dr := left_ear em, right_ear_dr := right_ear em,
        eyes_closed := is_closed em, blink_count_dr := blink_count et,
        mar_dr := mar ym, is_yawning_dr := is_yawning_ym ym, yawn_count := total_yawns_ym ym,
        pitch_dr := pitch hm, yaw_dr := yaw hm, roll_dr := roll hm,
        head_down := is_head_down hm, head_tilted := is_head_tilted hm,
        drowsiness_score :=
          min (e + (if is_fatigue_indicated yd then 30 else 0)
                 + (if is_head_down hm then 20 else 0)) 100,
        is_drowsy_dr := (is_drowsy et \<or> is_head_down hm),
        is_fatigued := is_fatigue_indicated yd,
        processing_time_ms := (time_end frame - time_start frame) * 1000\<rparr>"
    and d': "d' = d\<lparr>frame_count := frame_count d + 1, eye_tracker := et, yawn_detector := yd,
             head_pose := hp, alert_system := a\<rparr>"
    and a: "a = (if is_drowsy et \<or> is_head_down hm
          then snd (trigger_alert (time_alert frame) ''drowsiness'' (alert_system d))
          else if is_fatigue_indicated yd
          then snd (trigger_alert (time_alert frame) ''fatigue'' (alert_system d))
          else if \<not> is_closed em \<and> \<not> is_yawning_ym ym
          then stop_alert (alert_system d)
          else alert_system d)"
    by (rule process_frame_landmarks)
  show "face_detected res"
    by (simp add: res)
  show "\<exists>hm. estimate_pose lm (frame_shape frame) (solved_pose frame) (head_pose d)
                = Inr (hm, head_pose d')
             \<and> head_down res = is_head_down hm"
    using parts(1) by (simp add: res d')
  show "\<exists>e. get_drowsiness_score (eye_tracker d') = Inr e
          \<and> drowsiness_score res =
              min (e + (if is_fatigue_indicated (yawn_detector d') then 30 else 0)
                     + (if head_down res then 20 else 0)) 100"
    using parts(2) by (simp add: res d')
  show "is_drowsy_dr res = (is_drowsy (eye_tracker d') \<or> head_down res)"
    by (simp add: res d')
  show "is_fatigued res = is_fatigue_indicated (yawn_detector d')"
    by (simp add: res d')
next
  assume "length lm = 68 \<and> drowsy_frames_threshold (eye_tracker d) \<noteq> 0"
  with assms show "\<exists>res d'. process_frame frame d = Inr (res, d')"
    by (simp add: process_frame_total)
qed

theorem fused_score_and_flags_witness:
  "\<exists>res d'. process_frame face_frame (DrowsinessDetector default_config False 0) = Inr (res, d')
     \<and> face_detected res \<and> drowsiness_score res = 305 / 6
     \<and> \<not> is_drowsy_dr res \<and> \<not> is_fatigued res"
proof -
  have found: "found_landmarks face_frame = Some face_pts"
    by (simp add: face_frame_def)
  from face_frame_run obtain res d' where
    run: "process_frame face_frame (DrowsinessDetector default_config False 0) = Inr (res, d')"
    and vals: "get_drowsiness_score (eye_tracker d') = Inr (305 / 6)"
      "\<not> is_drowsy (eye_tracker d')" "\<not> is_fatigue_indicated (yawn_detector d')"
      "\<not> head_down res"
    by blast
  from fused_score_and_flags [OF found, of "DrowsinessDetector default_config False 0"] run
  have "face_detected res
      \<and> (\<exists>e. get_drowsiness_score (eye_tracker d') = Inr e
            \<and> drowsiness_score res =
                min (e + (if is_fatigue_indicated (yawn_detector d') then 30 else 0)
                       + (if head_down res then 20 else 0)) 100)
      \<and> is_drowsy_dr res = (is_drowsy (eye_tracker d') \<or> head_down res)
      \<and> is_fatigued res = is_fatigue_indicated (yawn_detector d')"
    by blast
  with vals have "face_detected res \<and> drowsiness_score res = 305 / 6
      \<and> \<not> is_drowsy_dr res \<and> \<not> is_fatigued res"
    by auto
  with run show ?thesis by blast
qed

text \<open>
  Claim C9. On a frame in which the landmark detector finds no face, \<open>process_frame\<close> returns
  without an exception a result with \<open>face_detected\<close> false, EAR, MAR and the pose angles 0,
  every boolean flag false, the drowsiness score 0, the two counts 0 and no landmarks; the
  eye tracker, the yawn detector, the head pose estimator and the alert system are left as
  they were, and only the frame counter has advanced.
\<close>

theorem no_face_is_neutral:
  assumes "found_landmarks frame = None"
  shows "\<exists>res d'. process_frame frame d = Inr (res, d')
     \<and> \<not> face_detected res
     \<and> ear res = 0 \<and> left_ear_dr res = 0 \<and> right_ear_dr res = 0 \<and> mar_dr res = 0
     \<and> pitch_dr res = 0 \<and> yaw_dr res = 0 \<and> roll_dr res = 0
     \<and> \<not> eyes_closed res \<and> \<not> is_yawning_dr res \<and> \<not> head_down res \<and> \<not> head_tilted res
     \<and> \<not> is_drowsy_dr res \<and> \<not> is_fatigued res
     \<and> drowsiness_score res = 0 \<and> blink_count_dr res = 0 \<and> yawn_count res = 0
     \<and> landmarks_dr res = None
     \<and> eye_tracker d' = eye_tracker d \<and> yawn_detector d' = yawn_detector d
     \<and> head_pose d' = head_pose d \<and> alert_system d' = alert_system d
     \<and> frame_count d' = frame_count d + 1"
  using assms by (simp add: process_frame_def DetectionResult_def Let_def)

theorem no_face_is_neutral_witness:
  "\<exists>res d'. process_frame no_face_frame (DrowsinessDetector default_config False 0)
              = Inr (res, d')
     \<and> \<not> face_detected res \<and> ear res = 0 \<and> mar_dr res = 0 \<and> drowsiness_score res = 0
     \<and> \<not> is_drowsy_dr res \<and> \<not> is_fatigued res
     \<and> eye_tracker d' = eye_tracker (DrowsinessDetector default_config False 0)
     \<and> yawn_detector d' = yawn_detector (DrowsinessDetector default_config False 0)
     \<and> head_pose d' = head_pose (DrowsinessDetector default_config False 0)
     \<and> alert_system d' = alert_system (DrowsinessDetector default_config False 0)
     \<and> frame_count d' = 1"
proof -
  have "found_landmarks no_face_frame = None"
    by (simp add: no_face_frame_def)
  from no_face_is_neutral [OF this, of "DrowsinessDetector default_config False 0"]
  show ?thesis
    by (auto simp: DrowsinessDetector_def Let_def)
qed

end
